theory Spec2Isabelle
  imports Main "HOL-Library.Sublist" "HOL-Library.Char_ord" "HOL-Library.List_Lexorder"
begin

section \<open>MeshLogic SDK: the request and error-mapping core, Go and TypeScript variants\<close>

text \<open>
  The repository holds two implementations of one client core: the Go package
  \<^verbatim>\<open>meshlogic\<close> (client, errors and resource services) and the TypeScript
  class \<^verbatim>\<open>MeshLogicClient\<close> with its error classes. Both are embedded here,
  side by side, because they differ in what they do. Names follow the sources; where
  the two variants use one name, the Go definition carries the prefix \<open>Go_\<close> or
  \<open>go_\<close> and the TypeScript one \<open>ts_\<close>.

  What the platform libraries compute (JSON decoding, the HTTP transport, URL parsing)
  is not code of the repository. Its result is an input of the model: a response
  carries, next to its raw body, what the JSON decoder makes of that body, and a call
  of \<^verbatim>\<open>request\<close> is evaluated against the outcome of its one network attempt.
\<close>

subsection \<open>Decimal rendering of integers\<close>

text \<open>
  Go's \<^verbatim>\<open>%d\<close> and JavaScript's conversion of an integral number to a string
  both print the decimal digits, with a leading minus sign for a negative value.
\<close>

fun digits :: "nat \<Rightarrow> string" where
  "digits n =
     (if n < 10 then [''0123456789'' ! n]
      else digits (n div 10) @ [''0123456789'' ! (n mod 10)])"

declare digits.simps [simp del]

definition Itoa :: "int \<Rightarrow> string" where
  "Itoa i = (if i < 0 then CHR ''-'' # digits (nat (- i)) else digits (nat i))"

subsection \<open>Go: the error types (errors.go)\<close>

record Error =
  Code :: string
  Message :: string
  StatusCode :: int

text \<open>
  An \<^verbatim>\<open>error\<close> value returned by the package is a pointer to one of the
  five error structs, or an error of another package handed through unchanged
  (\<open>Go_foreign\<close>: a \<^verbatim>\<open>*url.Error\<close> of the transport, a JSON or URL syntax
  error), of which the model keeps the description.
\<close>

datatype go_error =
    Go_Error Error
  | Go_AuthenticationError Error
  | Go_NotFoundError Error
  | Go_RateLimitError Error int
  | Go_ValidationError Error string
  | Go_foreign string

text \<open>\<^verbatim>\<open>func (e *Error) Error() string\<close>\<close>

definition Error_Error :: "Error \<Rightarrow> string" where
  "Error_Error e =
     (if Code e \<noteq> '''' then ''['' @ Code e @ ''] '' @ Message e else Message e)"

text \<open>\<^verbatim>\<open>func (e *RateLimitError) Error() string\<close>\<close>

definition RateLimitError_Error :: "Error \<Rightarrow> int \<Rightarrow> string" where
  "RateLimitError_Error e RetryAfter =
     Message e @ ''. Retry after '' @ Itoa RetryAfter @ '' seconds.''"

text \<open>\<^verbatim>\<open>func (e *ValidationError) Error() string\<close>\<close>

definition ValidationError_Error :: "Error \<Rightarrow> string \<Rightarrow> string" where
  "ValidationError_Error e fld =
     (if fld \<noteq> '''' then ''Validation error on field '' @ [CHR 0x27] @ fld @ [CHR 0x27]
        @ '': '' @ Message e
      else ''Validation error: '' @ Message e)"

text \<open>
  These three are the string methods the file declares, modelled as they are written.
  \<^verbatim>\<open>AuthenticationError\<close> and \<^verbatim>\<open>NotFoundError\<close> declare none, and they
  do not get the one of the struct they embed: the embedded field is itself named
  \<^verbatim>\<open>Error\<close>, and on a value of these types that name selects the field. So the
  model gives these two types no string form. (For \<^verbatim>\<open>RateLimitError\<close> and
  \<^verbatim>\<open>ValidationError\<close> the same name is a field and a method of one struct, which
  the Go compiler does not accept.)
\<close>

text \<open>The embedded \<^verbatim>\<open>Error\<close> of an SDK error; a foreign error has none.\<close>

fun go_base :: "go_error \<Rightarrow> Error option" where
  "go_base (Go_Error e) = Some e"
| "go_base (Go_AuthenticationError e) = Some e"
| "go_base (Go_NotFoundError e) = Some e"
| "go_base (Go_RateLimitError e n) = Some e"
| "go_base (Go_ValidationError e f) = Some e"
| "go_base (Go_foreign d) = None"

subsection \<open>TypeScript: the error classes (errors.ts)\<close>

text \<open>
  A JavaScript number. \<open>Num i\<close> is the number the platform has for the integer \<open>i\<close>:
  \<open>i\<close> itself up to \<open>2^53\<close> in magnitude, beyond that the double it rounds \<open>i\<close> to,
  which is infinite when \<open>i\<close> is out of the doubles' range. \<open>Ratio m n\<close> is the number
  nearest to \<open>m / 2^n\<close>, for the numbers that are not integers.
\<close>

datatype js_number = NaN | Num int | Ratio int nat

text \<open>
  \<^verbatim>\<open>String(n)\<close>, which is also what a template literal inserts. The text of
  \<^verbatim>\<open>NaN\<close> and of an integer up to \<open>2^53\<close> in magnitude is fixed by the language:
  the decimal digits. The text of every other number (rounded digits, the exponent form
  from \<open>10^21\<close>, \<^verbatim>\<open>Infinity\<close>, fractions) is computed by the platform's
  conversion, which is the parameter \<open>S\<close> of the model.
\<close>

definition js_String_number :: "(js_number \<Rightarrow> string) \<Rightarrow> js_number \<Rightarrow> string" where
  "js_String_number S n =
     (case n of
        NaN \<Rightarrow> ''NaN''
      | Num i \<Rightarrow> if \<bar>i\<bar> \<le> 2 ^ 53 then Itoa i else S n
      | Ratio m k \<Rightarrow> S n)"

text \<open>
  One constructor per class, holding the constructor's arguments. The subclasses pass
  a fixed code and status to \<^verbatim>\<open>super\<close>, which \<open>ts_code\<close> and
  \<open>ts_statusCode\<close> read back. An optional field is \<open>None\<close> when it is
  \<^verbatim>\<open>undefined\<close>.
\<close>

datatype ts_error =
    MeshLogicError string "string option" "int option"
  | AuthenticationError string
  | RateLimitError string js_number
  | NotFoundError string
  | ValidationError string "string option"

fun ts_message :: "ts_error \<Rightarrow> string" where
  "ts_message (MeshLogicError m c s) = m"
| "ts_message (AuthenticationError m) = m"
| "ts_message (RateLimitError m r) = m"
| "ts_message (NotFoundError m) = m"
| "ts_message (ValidationError m f) = m"

fun ts_code :: "ts_error \<Rightarrow> string option" where
  "ts_code (MeshLogicError m c s) = c"
| "ts_code (AuthenticationError m) = Some ''AUTH_ERROR''"
| "ts_code (RateLimitError m r) = Some ''RATE_LIMIT''"
| "ts_code (NotFoundError m) = Some ''NOT_FOUND''"
| "ts_code (ValidationError m f) = Some ''VALIDATION_ERROR''"

fun ts_statusCode :: "ts_error \<Rightarrow> int option" where
  "ts_statusCode (MeshLogicError m c s) = s"
| "ts_statusCode (AuthenticationError m) = Some 401"
| "ts_statusCode (RateLimitError m r) = Some 429"
| "ts_statusCode (NotFoundError m) = Some 404"
| "ts_statusCode (ValidationError m f) = Some 400"

text \<open>
  JavaScript truthiness of an optional string: \<^verbatim>\<open>undefined\<close> and the empty
  string are falsy. \<open>or_else x d\<close> is \<^verbatim>\<open>x || d\<close>.
\<close>

fun truthy :: "string option \<Rightarrow> bool" where
  "truthy None = False"
| "truthy (Some s) = (s \<noteq> '''')"

definition or_else :: "string option \<Rightarrow> string \<Rightarrow> string" where
  "or_else x d = (if truthy x then the x else d)"

text \<open>\<^verbatim>\<open>MeshLogicError.toString\<close>, inherited by the classes without their own.\<close>

definition MeshLogicError_toString :: "string option \<Rightarrow> string \<Rightarrow> string" where
  "MeshLogicError_toString code message =
     (if truthy code then ''['' @ the code @ ''] '' @ message else message)"

text \<open>
  A conversion for the examples, which stay within the integers up to \<open>2^53\<close> and
  so do not consult it.
\<close>

definition String_example :: "js_number \<Rightarrow> string" where
  "String_example n = ''Infinity''"

definition RateLimitError_toString :: "(js_number \<Rightarrow> string) \<Rightarrow> string \<Rightarrow> js_number \<Rightarrow> string" where
  "RateLimitError_toString S message retryAfter =
     message @ ''. Retry after '' @ js_String_number S retryAfter @ '' seconds.''"

definition ValidationError_toString :: "string \<Rightarrow> string option \<Rightarrow> string" where
  "ValidationError_toString message field =
     (if truthy field
      then ''Validation error on field '' @ [CHR 0x27] @ the field @ [CHR 0x27] @ '': '' @ message
      else ''Validation error: '' @ message)"

text \<open>The string form of an error value, by its class.\<close>

fun ts_toString :: "(js_number \<Rightarrow> string) \<Rightarrow> ts_error \<Rightarrow> string" where
  "ts_toString S (RateLimitError m r) = RateLimitError_toString S m r"
| "ts_toString S (ValidationError m f) = ValidationError_toString m f"
| "ts_toString S e = MeshLogicError_toString (ts_code e) (ts_message e)"

subsection \<open>Go: client construction (client.go)\<close>

text \<open>\<^verbatim>\<open>var endpoints = map[string]string{...}\<close>\<close>

definition endpoints :: "(string \<times> string) list" where
  "endpoints =
     [(''ap-southeast-2'', ''https://api.meshlogic.ai''),
      (''us-east-1'', ''https://api.us.meshlogic.ai''),
      (''eu-west-1'', ''https://api.eu.meshlogic.ai'')]"

text \<open>
  Reading a Go map at a missing key gives the zero value, the empty string.
\<close>

definition endpoints_at :: "string \<Rightarrow> string" where
  "endpoints_at region = (case map_of endpoints region of Some url \<Rightarrow> url | None \<Rightarrow> '''')"

text \<open>
  \<^verbatim>\<open>http.Client\<close>, of which the package touches the timeout only (a
  \<^verbatim>\<open>time.Duration\<close>, in nanoseconds). The client's three service handles point
  back to the client and hold nothing else, so the model leaves them out. Pointers are
  modelled by the values they point to: a nil \<^verbatim>\<open>*http.Client\<close> is not
  represented.
\<close>

record http_Client =
  Timeout :: int

record Client =
  apiKey :: string
  baseURL :: string
  httpClient :: http_Client

text \<open>
  A \<^verbatim>\<open>ClientOption\<close> is a function on the client under construction; the
  package builds them with five constructors, and the model represents an option by
  the constructor call that made it.
\<close>

datatype ClientOption =
    WithAPIKey string
  | WithRegion string
  | WithBaseURL string
  | WithHTTPClient http_Client
  | WithTimeout int

fun apply_option :: "ClientOption \<Rightarrow> Client \<Rightarrow> Client" where
  "apply_option (WithAPIKey k) c = c\<lparr>apiKey := k\<rparr>"
| "apply_option (WithRegion region) c =
     (case map_of endpoints region of
        Some endpoint \<Rightarrow> c\<lparr>baseURL := endpoint\<rparr>
      | None \<Rightarrow> c)"
| "apply_option (WithBaseURL u) c = c\<lparr>baseURL := u\<rparr>"
| "apply_option (WithHTTPClient h) c = c\<lparr>httpClient := h\<rparr>"
| "apply_option (WithTimeout t) c = c\<lparr>httpClient := (httpClient c)\<lparr>Timeout := t\<rparr>\<rparr>"

text \<open>
  The environment is the value of \<^verbatim>\<open>MESHLOGIC_API_KEY\<close>, \<open>None\<close> when the
  variable is unset; \<^verbatim>\<open>os.Getenv\<close> returns the empty string then.
\<close>

definition Getenv :: "string option \<Rightarrow> string" where
  "Getenv env = (case env of Some v \<Rightarrow> v | None \<Rightarrow> '''')"

definition initial_Client :: Client where
  "initial_Client =
     \<lparr>apiKey = '''', baseURL = endpoints_at ''ap-southeast-2'',
      httpClient = \<lparr>Timeout = 30 * 1000000000\<rparr>\<rparr>"

definition apply_options :: "ClientOption list \<Rightarrow> Client \<Rightarrow> Client" where
  "apply_options opts c = foldl (\<lambda>c opt. apply_option opt c) c opts"

text \<open>
  \<^verbatim>\<open>func NewClient(opts ...ClientOption) (*Client, error)\<close>: \<open>Inl\<close> is the
  error returned with a nil client, \<open>Inr\<close> the client returned with a nil error.
\<close>

definition NewClient :: "string option \<Rightarrow> ClientOption list \<Rightarrow> go_error + Client" where
  "NewClient env opts =
     (let c = apply_options opts initial_Client;
          c = (if apiKey c = '''' then c\<lparr>apiKey := Getenv env\<rparr> else c)
      in if apiKey c = ''''
         then Inl (Go_Error \<lparr>Code = ''AUTH_ERROR'',
                Message = ''API key required. Provide via WithAPIKey() or MESHLOGIC_API_KEY environment variable.'',
                StatusCode = 0\<rparr>)
         else Inr c)"

subsection \<open>TypeScript: client construction (client.ts)\<close>

definition ENDPOINTS :: "(string \<times> string) list" where
  "ENDPOINTS =
     [(''ap-southeast-2'', ''https://api.meshlogic.ai''),
      (''us-east-1'', ''https://api.us.meshlogic.ai''),
      (''eu-west-1'', ''https://api.eu.meshlogic.ai'')]"

text \<open>
  \<^verbatim>\<open>interface ClientConfig\<close>: every field is optional. The fields are read as
  \<^verbatim>\<open>config.apiKey\<close> and so on.
\<close>

record ClientConfig =
  config_apiKey :: "string option"
  config_region :: "string option"
  config_baseUrl :: "string option"
  config_timeout :: "int option"

text \<open>
  \<^verbatim>\<open>ENDPOINTS\<close> is a plain object, so \<^verbatim>\<open>ENDPOINTS[region]\<close> finds, besides
  the three entries, the members every object inherits from \<^verbatim>\<open>Object.prototype\<close>:
  functions, and under \<^verbatim>\<open>__proto__\<close> the prototype itself. The value read is a URL
  of the table or such a member, named here by its property name; \<open>None\<close> is
  \<^verbatim>\<open>undefined\<close>.
\<close>

definition Object_prototype :: "string list" where
  "Object_prototype =
     [''constructor'', ''toString'', ''toLocaleString'', ''valueOf'', ''hasOwnProperty'',
      ''isPrototypeOf'', ''propertyIsEnumerable'', ''__proto__'', ''__defineGetter__'',
      ''__defineSetter__'', ''__lookupGetter__'', ''__lookupSetter__'']"

datatype baseUrl_value = URL_text string | Inherited_member string

definition ENDPOINTS_at :: "string \<Rightarrow> baseUrl_value option" where
  "ENDPOINTS_at region =
     (case map_of ENDPOINTS region of
        Some url \<Rightarrow> Some (URL_text url)
      | None \<Rightarrow> if region \<in> set Object_prototype then Some (Inherited_member region) else None)"

text \<open>Truthiness of such a value: a function or an object is truthy, the empty string is not.\<close>

fun truthy_value :: "baseUrl_value option \<Rightarrow> bool" where
  "truthy_value None = False"
| "truthy_value (Some (URL_text url)) = (url \<noteq> '''')"
| "truthy_value (Some (Inherited_member name)) = True"

text \<open>
  The private fields of a \<^verbatim>\<open>MeshLogicClient\<close>. The field \<^verbatim>\<open>baseUrl\<close> is
  declared a string and holds whatever the constructor stores.
\<close>

record MeshLogicClient =
  this_apiKey :: string
  this_baseUrl :: baseUrl_value
  this_timeout :: int

text \<open>\<^verbatim>\<open>config.timeout || 30000\<close>: an absent timeout and the number 0 are falsy.\<close>

definition timeout_or_default :: "int option \<Rightarrow> int" where
  "timeout_or_default t = (case t of Some n \<Rightarrow> (if n = 0 then 30000 else n) | None \<Rightarrow> 30000)"

text \<open>
  The constructor: \<open>Inl\<close> is the error it throws, \<open>Inr\<close> the constructed client.
  The environment is \<^verbatim>\<open>process.env.MESHLOGIC_API_KEY\<close>, \<open>None\<close> when unset.
\<close>

definition new_MeshLogicClient :: "string option \<Rightarrow> ClientConfig \<Rightarrow> ts_error + MeshLogicClient" where
  "new_MeshLogicClient env config =
     (let apiKey' = or_else (config_apiKey config) (or_else env '''')
      in if apiKey' = ''''
         then Inl (AuthenticationError
                ''API key required. Provide via apiKey option or MESHLOGIC_API_KEY environment variable.'')
         else
           let region = or_else (config_region config) ''ap-southeast-2'';
               baseUrl' =
                 (if truthy (config_baseUrl config) then URL_text (the (config_baseUrl config))
                  else if truthy_value (ENDPOINTS_at region) then the (ENDPOINTS_at region)
                  else the (ENDPOINTS_at ''ap-southeast-2''))
           in Inr \<lparr>this_apiKey = apiKey', this_baseUrl = baseUrl',
                   this_timeout = timeout_or_default (config_timeout config)\<rparr>)"

subsection \<open>Reading an integer from a header value\<close>

definition is_digit :: "char \<Rightarrow> bool" where
  "is_digit c = (c \<in> set ''0123456789'')"

definition digit_value :: "char \<Rightarrow> nat" where
  "digit_value c = of_char c - 48"

definition decimal :: "string \<Rightarrow> nat" where
  "decimal ds = foldl (\<lambda>a c. 10 * a + digit_value c) 0 ds"

text \<open>
  An optional sign, then the longest run of decimal digits: \<open>None\<close> when there is no
  digit, else the signed value. Both \<^verbatim>\<open>fmt.Sscanf\<close> with \<^verbatim>\<open>%d\<close> and
  \<^verbatim>\<open>parseInt\<close> with radix 10 read their number this way and ignore what
  follows it.
\<close>

definition signed_digits :: "string \<Rightarrow> int option" where
  "signed_digits s =
     (let neg = (s \<noteq> [] \<and> hd s = CHR ''-'');
          t = (if s \<noteq> [] \<and> (hd s = CHR ''+'' \<or> hd s = CHR ''-'') then tl s else s);
          ds = takeWhile is_digit t
      in if ds = [] then None
         else Some (if neg then - int (decimal ds) else int (decimal ds)))"

text \<open>
  The spaces of \<^verbatim>\<open>fmt\<close>'s scanner other than the newline, which it treats apart.
  A Go string is a sequence of bytes that the scanner reads as UTF-8, so a space is one,
  two or three bytes long: the ASCII ones, then U+0085 and U+00A0, then U+1680, U+2000
  to U+200A, U+2028, U+2029, U+202F, U+205F and U+3000. \<open>space_width s\<close> is the
  number of bytes of the space \<open>s\<close> starts with, 0 when it starts with none.
\<close>

definition space_width :: "string \<Rightarrow> nat" where
  "space_width s =
     (if s = [] then 0
      else if hd s \<in> set [CHR 0x09, CHR 0x0B, CHR 0x0C, CHR 0x0D, CHR 0x20] then 1
      else if take 2 s \<in> set [[CHR 0xC2, CHR 0x85], [CHR 0xC2, CHR 0xA0]] then 2
      else if take 3 s \<in> set
          [[CHR 0xE1, CHR 0x9A, CHR 0x80],
           [CHR 0xE2, CHR 0x80, CHR 0x80], [CHR 0xE2, CHR 0x80, CHR 0x81],
           [CHR 0xE2, CHR 0x80, CHR 0x82], [CHR 0xE2, CHR 0x80, CHR 0x83],
           [CHR 0xE2, CHR 0x80, CHR 0x84], [CHR 0xE2, CHR 0x80, CHR 0x85],
           [CHR 0xE2, CHR 0x80, CHR 0x86], [CHR 0xE2, CHR 0x80, CHR 0x87],
           [CHR 0xE2, CHR 0x80, CHR 0x88], [CHR 0xE2, CHR 0x80, CHR 0x89],
           [CHR 0xE2, CHR 0x80, CHR 0x8A], [CHR 0xE2, CHR 0x80, CHR 0xA8],
           [CHR 0xE2, CHR 0x80, CHR 0xA9], [CHR 0xE2, CHR 0x80, CHR 0xAF],
           [CHR 0xE2, CHR 0x81, CHR 0x9F], [CHR 0xE3, CHR 0x80, CHR 0x80]] then 3
      else 0)"

text \<open>
  \<^verbatim>\<open>fmt.Sscanf(ra, "%d", &retryAfter)\<close>: leading spaces are skipped, a newline
  among them is an error; then comes an optional sign and a run of ASCII digits, and the
  number must fit \<^verbatim>\<open>int\<close> (64 bits). \<open>None\<close> is a scan that fails, which
  leaves the target variable as it was.
\<close>

function SkipSpace :: "string \<Rightarrow> string option" where
  "SkipSpace s =
     (if s = [] then Some []
      else if hd s = CHR 0x0A then None
      else if space_width s = 0 then Some s
      else SkipSpace (drop (space_width s) s))"
  by pat_completeness auto
termination
  by (relation "measure length") auto

declare SkipSpace.simps [simp del]

definition Sscanf_d :: "string \<Rightarrow> int option" where
  "Sscanf_d s =
     (case SkipSpace s of
        None \<Rightarrow> None
      | Some t \<Rightarrow>
          (case signed_digits t of
             None \<Rightarrow> None
           | Some i \<Rightarrow> if - (2 ^ 63) \<le> i \<and> i < 2 ^ 63 then Some i else None))"

text \<open>
  \<^verbatim>\<open>parseInt(s, 10)\<close> of a header value. \<^verbatim>\<open>headers.get\<close> returns the
  value's bytes, one character for each, so of JavaScript's white space the string can
  hold the ASCII ones and U+00A0. Leading white space is skipped; then comes an
  optional sign and a run of ASCII digits; no digit gives \<^verbatim>\<open>NaN\<close>. The result is
  the number the platform has for the integer read, \<open>Num i\<close> (for \<^verbatim>\<open>-0\<close> the
  negative zero, which prints and compares as zero).
\<close>

definition white_space :: "char \<Rightarrow> bool" where
  "white_space c =
     (c \<in> set [CHR 0x09, CHR 0x0A, CHR 0x0B, CHR 0x0C, CHR 0x0D, CHR 0x20, CHR 0xA0])"

definition parseInt :: "string \<Rightarrow> js_number" where
  "parseInt s =
     (case signed_digits (dropWhile white_space s) of
        None \<Rightarrow> NaN
      | Some i \<Rightarrow> Num i)"

subsection \<open>Go: request (client.go)\<close>

text \<open>
  A response whose body \<^verbatim>\<open>io.ReadAll\<close> has read. \<open>resp_Unmarshal\<close> is what
  \<^verbatim>\<open>json.Unmarshal(respBody, &apiErr)\<close> does to a zero \<^verbatim>\<open>Error\<close>:
  \<open>None\<close> when it returns an error, else the decoded struct (a field the body does
  not set stays empty). Header names are in canonical form.
\<close>

record go_Response =
  resp_StatusCode :: int
  resp_Header :: "(string \<times> string) list"
  resp_Body :: string
  resp_Unmarshal :: "Error option"

text \<open>\<^verbatim>\<open>resp.Header.Get(key)\<close>: the empty string when the header is missing.\<close>

definition Header_Get :: "(string \<times> string) list \<Rightarrow> string \<Rightarrow> string" where
  "Header_Get h key = (case map_of h key of Some v \<Rightarrow> v | None \<Rightarrow> '''')"

text \<open>
  What happens to the one attempt a call makes: one of the library calls before the
  response fails (each with the description of its error), or a response arrives.
  \<open>Do_fails\<close> covers every transport failure, the client's timeout among them.
\<close>

datatype go_outcome =
    Parse_fails string
  | Marshal_fails string
  | NewRequest_fails string
  | Do_fails string
  | ReadAll_fails string
  | Responds go_Response

text \<open>The status switch of \<^verbatim>\<open>request\<close>, on the decoded error.\<close>

definition go_classify :: "go_Response \<Rightarrow> Error \<Rightarrow> go_error" where
  "go_classify resp apiErr =
     (if resp_StatusCode resp = 401 then Go_AuthenticationError apiErr
      else if resp_StatusCode resp = 404 then Go_NotFoundError apiErr
      else if resp_StatusCode resp = 429 then
        (let retryAfter = 60;
             ra = Header_Get (resp_Header resp) ''Retry-After'';
             retryAfter = (if ra \<noteq> ''''
                           then (case Sscanf_d ra of Some n \<Rightarrow> n | None \<Rightarrow> retryAfter)
                           else retryAfter)
         in Go_RateLimitError apiErr retryAfter)
      else Go_Error apiErr)"

text \<open>
  \<^verbatim>\<open>func (c *Client) request(ctx, method, path, params, body) ([]byte, error)\<close>.
  The client, the method and the path shape the request that is sent; the value
  returned is a function of the outcome alone. \<open>Inl\<close> is the error returned with nil
  bytes, \<open>Inr\<close> the body returned with a nil error.
\<close>

definition go_request :: "Client \<Rightarrow> string \<Rightarrow> string \<Rightarrow> go_outcome \<Rightarrow> go_error + string" where
  "go_request c method path outcome =
     (case outcome of
        Parse_fails err \<Rightarrow> Inl (Go_foreign err)
      | Marshal_fails err \<Rightarrow> Inl (Go_foreign err)
      | NewRequest_fails err \<Rightarrow> Inl (Go_foreign err)
      | Do_fails err \<Rightarrow> Inl (Go_foreign err)
      | ReadAll_fails err \<Rightarrow> Inl (Go_foreign err)
      | Responds resp \<Rightarrow>
          if resp_StatusCode resp \<ge> 400 then
            (let apiErr = (case resp_Unmarshal resp of
                             Some e \<Rightarrow> e
                           | None \<Rightarrow> \<lparr>Code = ''UNKNOWN'', Message = resp_Body resp,
                                       StatusCode = resp_StatusCode resp\<rparr>);
                 apiErr = apiErr\<lparr>StatusCode := resp_StatusCode resp\<rparr>
             in Inl (go_classify resp apiErr))
          else Inr (resp_Body resp))"

subsection \<open>TypeScript: request (client.ts)\<close>

text \<open>
  A thrown JavaScript value that is not an SDK error, by what the \<^verbatim>\<open>catch\<close>
  block reads of it: \<^verbatim>\<open>error instanceof Error\<close>, \<^verbatim>\<open>error.name\<close> and
  \<^verbatim>\<open>String(error)\<close>.
\<close>

record js_exception =
  exn_instanceof_Error :: bool
  exn_name :: string
  exn_String :: string

text \<open>
  A parsed JSON value other than \<^verbatim>\<open>null\<close>, of which the model keeps the text it
  was parsed from and the two properties the core reads, as the strings the error
  payload documents them to be; \<open>None\<close> for a property that is missing, as both are in
  a value that is not an object.
\<close>

record json_value =
  json_source :: string
  prop_message :: "string option"
  prop_code :: "string option"

text \<open>
  A \<^verbatim>\<open>Response\<close>. \<open>json\<close> is the result of \<^verbatim>\<open>response.json()\<close>:
  \<open>Inl\<close> the exception it rejects with when the body is not JSON, \<open>Inr\<close> the value it
  resolves to, where \<open>None\<close> is the JSON value \<^verbatim>\<open>null\<close>, the one value of which
  reading a property throws. \<open>headers_get\<close> is \<^verbatim>\<open>response.headers.get\<close>, with the
  header name spelled as the code spells it (the platform ignores its case).
\<close>

record ts_Response =
  status :: int
  headers :: "(string \<times> string) list"
  json :: "js_exception + json_value option"

definition ok :: "ts_Response \<Rightarrow> bool" where
  "ok response = (200 \<le> status response \<and> status response \<le> 299)"

definition headers_get :: "(string \<times> string) list \<Rightarrow> string \<Rightarrow> string option" where
  "headers_get h name = map_of h name"

text \<open>
  The outcome of a call's one attempt. \<open>Timer_fires\<close>: the timer set with
  \<^verbatim>\<open>setTimeout\<close> expires while \<^verbatim>\<open>fetch\<close> is pending, its callback calls
  \<^verbatim>\<open>controller.abort()\<close>, and \<^verbatim>\<open>fetch\<close> rejects with the abort's
  exception. \<open>URL_throws\<close> and \<open>stringify_throws\<close>: the \<^verbatim>\<open>URL\<close> constructor
  (before the \<^verbatim>\<open>try\<close>) or \<^verbatim>\<open>JSON.stringify\<close> (inside it) throws.
\<close>

datatype ts_outcome =
    URL_throws js_exception
  | stringify_throws js_exception
  | Timer_fires
  | fetch_rejects js_exception
  | fetch_resolves ts_Response

text \<open>
  The exception of an aborted \<^verbatim>\<open>fetch\<close>, a \<^verbatim>\<open>DOMException\<close> named
  \<^verbatim>\<open>AbortError\<close>; the wording of its string form is the platform's.
\<close>

definition AbortError :: js_exception where
  "AbortError =
     \<lparr>exn_instanceof_Error = True, exn_name = ''AbortError'',
      exn_String = ''AbortError: This operation was aborted''\<rparr>"

text \<open>What a call throws: an SDK error, or another exception passed on as it is.\<close>

datatype ts_thrown = Thrown ts_error | Uncaught js_exception

text \<open>The \<^verbatim>\<open>catch\<close> block, for an exception that is not an SDK error.\<close>

definition catch_block :: "js_exception \<Rightarrow> ts_error" where
  "catch_block error =
     (if exn_instanceof_Error error \<and> exn_name error = ''AbortError''
      then MeshLogicError ''Request timeout'' (Some ''TIMEOUT'') None
      else MeshLogicError (exn_String error) (Some ''NETWORK_ERROR'') None)"

text \<open>
  \<^verbatim>\<open>const errorData = await response.json().catch(() => ({}))\<close>: the parsed
  body, or the empty object when parsing fails.
\<close>

definition errorData :: "ts_Response \<Rightarrow> json_value option" where
  "errorData response =
     (case json response of
        Inl e \<Rightarrow> Some \<lparr>json_source = ''{}'', prop_message = None, prop_code = None\<rparr>
      | Inr v \<Rightarrow> v)"

text \<open>
  The exception of reading \<^verbatim>\<open>errorData.message\<close> when \<^verbatim>\<open>errorData\<close> is
  \<^verbatim>\<open>null\<close>; the wording of its string form is the engine's, here V8's.
\<close>

definition TypeError_of_null :: js_exception where
  "TypeError_of_null =
     \<lparr>exn_instanceof_Error = True, exn_name = ''TypeError'',
      exn_String = ''TypeError: Cannot read properties of null (reading 'message')''\<rparr>"

text \<open>
  The branch \<^verbatim>\<open>if (!response.ok)\<close>: the error that the call ends with. Every
  case of the switch reads \<^verbatim>\<open>errorData.message\<close> first; for a body that is
  \<^verbatim>\<open>null\<close> that read throws inside the \<^verbatim>\<open>try\<close>, and the \<^verbatim>\<open>catch\<close>
  block turns the exception into its own error.
\<close>

definition error_of_response :: "string \<Rightarrow> ts_Response \<Rightarrow> ts_error" where
  "error_of_response path response =
     (case errorData response of
        None \<Rightarrow> catch_block TypeError_of_null
      | Some d \<Rightarrow>
          if status response = 401
            then AuthenticationError (or_else (prop_message d) ''Invalid or expired API key'')
          else if status response = 404
            then NotFoundError (or_else (prop_message d) (''Resource not found: '' @ path))
          else if status response = 429
            then (let retryAfter =
                        parseInt (or_else (headers_get (headers response) ''Retry-After'') ''60'')
                  in RateLimitError (or_else (prop_message d) ''Rate limit exceeded'') retryAfter)
          else MeshLogicError (or_else (prop_message d) ''Unknown error'')
                 (Some (or_else (prop_code d) ''UNKNOWN'')) (Some (status response)))"

text \<open>
  \<^verbatim>\<open>async request<T>(method, path, params?, body?): Promise<T>\<close>. \<open>Inl\<close> is
  what the returned promise rejects with, \<open>Inr\<close> the parsed value it resolves to. The
  success path returns \<^verbatim>\<open>response.json()\<close> without awaiting it, so a rejection
  of that promise does not pass through the \<^verbatim>\<open>catch\<close> block.
\<close>

definition ts_request ::
  "MeshLogicClient \<Rightarrow> string \<Rightarrow> string \<Rightarrow> ts_outcome \<Rightarrow> ts_thrown + json_value option" where
  "ts_request this method path outcome =
     (case outcome of
        URL_throws e \<Rightarrow> Inl (Uncaught e)
      | stringify_throws e \<Rightarrow> Inl (Thrown (catch_block e))
      | Timer_fires \<Rightarrow> Inl (Thrown (catch_block AbortError))
      | fetch_rejects e \<Rightarrow> Inl (Thrown (catch_block e))
      | fetch_resolves response \<Rightarrow>
          if \<not> ok response then Inl (Thrown (error_of_response path response))
          else (case json response of
                  Inl e \<Rightarrow> Inl (Uncaught e)
                | Inr v \<Rightarrow> Inr v))"






subsection \<open>Error kinds and fields, for stating the properties\<close>

text \<open>
  The kind of an error is its dynamic type: the Go struct behind the \<^verbatim>\<open>error\<close>
  interface, the JavaScript class of the thrown object.
\<close>

datatype error_kind = Generic | Authentication | NotFound | RateLimit | Validation | Foreign

fun go_kind :: "go_error \<Rightarrow> error_kind" where
  "go_kind (Go_Error e) = Generic"
| "go_kind (Go_AuthenticationError e) = Authentication"
| "go_kind (Go_NotFoundError e) = NotFound"
| "go_kind (Go_RateLimitError e n) = RateLimit"
| "go_kind (Go_ValidationError e f) = Validation"
| "go_kind (Go_foreign d) = Foreign"

fun ts_kind :: "ts_error \<Rightarrow> error_kind" where
  "ts_kind (MeshLogicError m c s) = Generic"
| "ts_kind (AuthenticationError m) = Authentication"
| "ts_kind (NotFoundError m) = NotFound"
| "ts_kind (RateLimitError m r) = RateLimit"
| "ts_kind (ValidationError m f) = Validation"

text \<open>The kind a failure status maps to, in both variants' status switch.\<close>

definition kind_of_status :: "int \<Rightarrow> error_kind" where
  "kind_of_status s =
     (if s = 401 then Authentication else if s = 404 then NotFound
      else if s = 429 then RateLimit else Generic)"

text \<open>The code, message and status of a Go error; a foreign error has none of them.\<close>

definition go_code :: "go_error \<Rightarrow> string option" where
  "go_code err = map_option Code (go_base err)"

definition go_message :: "go_error \<Rightarrow> string option" where
  "go_message err = map_option Message (go_base err)"

definition go_status :: "go_error \<Rightarrow> int option" where
  "go_status err = map_option StatusCode (go_base err)"

text \<open>The error a call fails with, \<open>None\<close> when it succeeds.\<close>

definition go_failure :: "go_error + 'a \<Rightarrow> go_error option" where
  "go_failure r = (case r of Inl err \<Rightarrow> Some err | Inr v \<Rightarrow> None)"

text \<open>
  The SDK error a TypeScript call throws, \<open>None\<close> when it succeeds or rejects with an
  exception that is not an SDK error.
\<close>

definition ts_failure :: "ts_thrown + 'a \<Rightarrow> ts_error option" where
  "ts_failure r = (case r of Inl (Thrown err) \<Rightarrow> Some err | Inl (Uncaught e) \<Rightarrow> None | Inr v \<Rightarrow> None)"

text \<open>The fixed message the TypeScript variant uses when the body supplies none.\<close>

definition ts_fallback_message :: "int \<Rightarrow> string \<Rightarrow> string" where
  "ts_fallback_message s path =
     (if s = 401 then ''Invalid or expired API key''
      else if s = 404 then ''Resource not found: '' @ path
      else if s = 429 then ''Rate limit exceeded''
      else ''Unknown error'')"

subsection \<open>Query parameters\<close>

text \<open>
  A query string is modelled by its list of name and value pairs, in the order they are
  serialized; percent-encoding is left out.

  TypeScript: the parameter object is the list \<^verbatim>\<open>Object.entries(params)\<close>; a
  value is a string, a number or a boolean, or \<^verbatim>\<open>undefined\<close> (\<open>None\<close>).
  \<open>js_String\<close> is \<^verbatim>\<open>String(value)\<close>, with the platform's conversion of numbers
  as its parameter.
\<close>

datatype ts_scalar = Str string | Number js_number | Boolean bool

fun js_String :: "(js_number \<Rightarrow> string) \<Rightarrow> ts_scalar \<Rightarrow> string" where
  "js_String S (Str s) = s"
| "js_String S (Number n) = js_String_number S n"
| "js_String S (Boolean b) = (if b then ''true'' else ''false'')"

text \<open>
  \<^verbatim>\<open>URLSearchParams.set(name, value)\<close>: the first pair named \<open>name\<close> takes the
  value and the later ones are removed; without such a pair, a new one is appended.
\<close>

fun searchParams_set :: "(string \<times> string) list \<Rightarrow> string \<Rightarrow> string \<Rightarrow> (string \<times> string) list" where
  "searchParams_set [] name v = [(name, v)]"
| "searchParams_set ((k, w) # q) name v =
     (if k = name then (name, v) # filter (\<lambda>p. fst p \<noteq> name) q
      else (k, w) # searchParams_set q name v)"

text \<open>
  The loop of \<^verbatim>\<open>request\<close> over the entries. \<open>q0\<close> is the query of
  \<^verbatim>\<open>new URL(path, this.baseUrl)\<close>, empty unless the path carries one.
\<close>

definition ts_query ::
  "(js_number \<Rightarrow> string) \<Rightarrow> (string \<times> string) list \<Rightarrow> (string \<times> ts_scalar option) list option
     \<Rightarrow> (string \<times> string) list" where
  "ts_query S q0 params =
     (case params of
        None \<Rightarrow> q0
      | Some entries \<Rightarrow>
          foldl (\<lambda>q (key, val). case val of None \<Rightarrow> q | Some v \<Rightarrow> searchParams_set q key (js_String S v))
            q0 entries)"

text \<open>
  Go: \<^verbatim>\<open>url.Values\<close> is a map from a name to a list of values, here an
  association list read with \<open>map_of\<close>. \<^verbatim>\<open>Encode\<close> walks the names in sorted
  order and writes one pair for each value of a name.
\<close>

type_synonym Values = "(string \<times> string list) list"

text \<open>
  \<^verbatim>\<open>v.Set(key, value)\<close>, with which the resource methods fill the mapping they
  pass to \<^verbatim>\<open>request\<close>: the name holds the one value from then on.
\<close>

definition Values_Set :: "Values \<Rightarrow> string \<Rightarrow> string \<Rightarrow> Values" where
  "Values_Set v key x = (key, [x]) # v"

definition Encode :: "Values \<Rightarrow> (string \<times> string) list" where
  "Encode v =
     concat (map (\<lambda>k. map (\<lambda>x. (k, x)) (the (map_of v k))) (sort (remdups (map fst v))))"

text \<open>
  \<^verbatim>\<open>if params != nil { u.RawQuery = params.Encode() }\<close>: \<open>q0\<close> is the query of
  \<^verbatim>\<open>url.Parse(c.baseURL + path)\<close>.
\<close>

definition go_RawQuery :: "(string \<times> string) list \<Rightarrow> Values option \<Rightarrow> (string \<times> string) list" where
  "go_RawQuery q0 params = (case params of None \<Rightarrow> q0 | Some v \<Rightarrow> Encode v)"

text \<open>
  A mapping as the resource methods build it: \<^verbatim>\<open>url.Values{}\<close>, then the calls
  of \<^verbatim>\<open>Set\<close> that the method's conditions let through, in order.
\<close>

definition Values_built :: "(string \<times> string) list \<Rightarrow> Values" where
  "Values_built sets = foldl (\<lambda>v (key, x). Values_Set v key x) [] sets"

text \<open>
  For stating the properties: the values a query holds under one name, in order, and the
  pairs that the entries with a defined value stand for, in entry order.
\<close>

definition values_of :: "string \<Rightarrow> (string \<times> string) list \<Rightarrow> string list" where
  "values_of name q = map snd (filter (\<lambda>p. fst p = name) q)"

fun ts_defined :: "(js_number \<Rightarrow> string) \<Rightarrow> (string \<times> ts_scalar option) list \<Rightarrow> (string \<times> string) list" where
  "ts_defined S [] = []"
| "ts_defined S ((key, None) # entries) = ts_defined S entries"
| "ts_defined S ((key, Some v) # entries) = (key, js_String S v) # ts_defined S entries"

section \<open>Properties\<close>

subsection \<open>String forms of the errors\<close>

lemma sublist_mid: "sublist x (a @ x @ b)"
  by (rule sublist_appendI)

text \<open>
  C9, as the code has it. The string form of a base error includes the code whenever the
  code is present: Go's \<^verbatim>\<open>Error.Error\<close> for a non-empty \<^verbatim>\<open>Code\<close>,
  TypeScript's \<^verbatim>\<open>MeshLogicError.toString\<close> for a truthy \<^verbatim>\<open>code\<close>, which
  the authentication and not-found classes inherit and whose codes are always present.
  The string form of a rate-limit error always includes the retry delay, and that of a
  validation error includes the field name whenever the field is known. The rate-limit
  and validation forms do not add the code: in Go they are the same whatever the code
  and the status are, and in TypeScript, where the class fixes the code, they are the
  message with the delay or the field around it and nothing else. The Go types
  \<^verbatim>\<open>AuthenticationError\<close> and \<^verbatim>\<open>NotFoundError\<close> declare no string method;
  nothing is stated of them.
\<close>

theorem string_forms:
  "(Code e \<noteq> '''' \<longrightarrow> sublist (Code e) (Error_Error e))
   \<and> sublist (Itoa n) (RateLimitError_Error e n)
   \<and> (f \<noteq> '''' \<longrightarrow> sublist f (ValidationError_Error e f))
   \<and> RateLimitError_Error (e\<lparr>Code := c', StatusCode := s'\<rparr>) n = RateLimitError_Error e n
   \<and> ValidationError_Error (e\<lparr>Code := c', StatusCode := s'\<rparr>) f = ValidationError_Error e f
   \<and> (truthy c \<longrightarrow> sublist (the c) (ts_toString S (MeshLogicError m c s)))
   \<and> sublist (the (ts_code (AuthenticationError m))) (ts_toString S (AuthenticationError m))
   \<and> sublist (the (ts_code (NotFoundError m))) (ts_toString S (NotFoundError m))
   \<and> sublist (js_String_number S r) (ts_toString S (RateLimitError m r))
   \<and> (truthy fo \<longrightarrow> sublist (the fo) (ts_toString S (ValidationError m fo)))
   \<and> ts_toString S (RateLimitError m r)
       = m @ ''. Retry after '' @ js_String_number S r @ '' seconds.''
   \<and> ts_toString S (ValidationError m fo)
       = (if truthy fo
          then ''Validation error on field '' @ [CHR 0x27] @ the fo @ [CHR 0x27] @ '': '' @ m
          else ''Validation error: '' @ m)"
proof -
  have base: "sublist x (''['' @ x @ ''] '' @ y)" for x y :: string
    by (rule sublist_mid)
  have go_b: "Code e \<noteq> '''' \<longrightarrow> sublist (Code e) (Error_Error e)"
    using base [of "Code e" "Message e"] by (simp add: Error_Error_def)
  have go_r: "sublist (Itoa n) (RateLimitError_Error e n)"
    unfolding RateLimitError_Error_def
    using sublist_mid [of "Itoa n" "Message e @ ''. Retry after ''" "'' seconds.''"] by simp
  have go_v: "f \<noteq> '''' \<longrightarrow> sublist f (ValidationError_Error e f)"
    unfolding ValidationError_Error_def
    using sublist_mid [of f "''Validation error on field '' @ [CHR 0x27]"
        "[CHR 0x27] @ '': '' @ Message e"]
    by simp
  have go_r': "RateLimitError_Error (e\<lparr>Code := c', StatusCode := s'\<rparr>) n = RateLimitError_Error e n"
    by (simp add: RateLimitError_Error_def)
  have go_v': "ValidationError_Error (e\<lparr>Code := c', StatusCode := s'\<rparr>) f = ValidationError_Error e f"
    by (simp add: ValidationError_Error_def)
  have ts_b: "truthy c \<Longrightarrow> sublist (the c) (MeshLogicError_toString c m)" for c m
    using base [of "the c" m] by (simp add: MeshLogicError_toString_def)
  have ts_r: "sublist (js_String_number S r) (ts_toString S (RateLimitError m r))"
    unfolding ts_toString.simps RateLimitError_toString_def
    using sublist_mid [of "js_String_number S r" "m @ ''. Retry after ''" "'' seconds.''"] by simp
  have ts_v: "truthy fo \<longrightarrow> sublist (the fo) (ts_toString S (ValidationError m fo))"
    unfolding ts_toString.simps ValidationError_toString_def
    using sublist_mid [of "the fo" "''Validation error on field '' @ [CHR 0x27]"
        "[CHR 0x27] @ '': '' @ m"]
    by simp
  have ts_r': "ts_toString S (RateLimitError m r)
       = m @ ''. Retry after '' @ js_String_number S r @ '' seconds.''"
    by (simp add: RateLimitError_toString_def)
  have ts_v': "ts_toString S (ValidationError m fo)
       = (if truthy fo
          then ''Validation error on field '' @ [CHR 0x27] @ the fo @ [CHR 0x27] @ '': '' @ m
          else ''Validation error: '' @ m)"
    by (simp add: ValidationError_toString_def)
  have ts_a: "sublist (the (ts_code (AuthenticationError m))) (ts_toString S (AuthenticationError m))"
    using ts_b [of "Some ''AUTH_ERROR''" m] by simp
  have ts_n: "sublist (the (ts_code (NotFoundError m))) (ts_toString S (NotFoundError m))"
    using ts_b [of "Some ''NOT_FOUND''" m] by simp
  have ts_m: "truthy c \<longrightarrow> sublist (the c) (ts_toString S (MeshLogicError m c s))"
    using ts_b [of c m] by simp
  from go_b go_r go_v go_r' go_v' ts_m ts_a ts_n ts_r ts_v ts_r' ts_v'
  show ?thesis
    by blast
qed

theorem string_forms_witness:
  "sublist ''E42'' (Error_Error \<lparr>Code = ''E42'', Message = ''boom'', StatusCode = 500\<rparr>)
   \<and> Error_Error \<lparr>Code = ''E42'', Message = ''boom'', StatusCode = 500\<rparr> = ''[E42] boom''
   \<and> sublist ''120'' (RateLimitError_Error \<lparr>Code = ''E42'', Message = ''boom'', StatusCode = 500\<rparr> 120)
   \<and> RateLimitError_Error \<lparr>Code = ''E42'', Message = ''boom'', StatusCode = 500\<rparr> 120
        = ''boom. Retry after 120 seconds.''
   \<and> sublist ''limit''
        (ValidationError_Error \<lparr>Code = ''E42'', Message = ''boom'', StatusCode = 500\<rparr> ''limit'')
   \<and> ts_toString String_example (MeshLogicError ''boom'' (Some ''E42'') (Some 500)) = ''[E42] boom''
   \<and> sublist ''E42'' (ts_toString String_example (MeshLogicError ''boom'' (Some ''E42'') (Some 500)))
   \<and> sublist ''AUTH_ERROR'' (ts_toString String_example (AuthenticationError ''boom''))
   \<and> sublist ''120'' (ts_toString String_example (RateLimitError ''boom'' (Num 120)))
   \<and> sublist ''limit'' (ts_toString String_example (ValidationError ''boom'' (Some ''limit'')))"
proof -
  have k: "(Code \<lparr>Code = ''E42'', Message = ''boom'', StatusCode = 500\<rparr> \<noteq> ''''
              \<longrightarrow> sublist (Code \<lparr>Code = ''E42'', Message = ''boom'', StatusCode = 500\<rparr>)
                    (Error_Error \<lparr>Code = ''E42'', Message = ''boom'', StatusCode = 500\<rparr>))
         \<and> sublist (Itoa 120) (RateLimitError_Error \<lparr>Code = ''E42'', Message = ''boom'', StatusCode = 500\<rparr> 120)
         \<and> (''limit'' \<noteq> '''' \<longrightarrow> sublist ''limit''
               (ValidationError_Error \<lparr>Code = ''E42'', Message = ''boom'', StatusCode = 500\<rparr> ''limit''))
         \<and> (truthy (Some ''E42'') \<longrightarrow> sublist (the (Some ''E42''))
               (ts_toString String_example (MeshLogicError ''boom'' (Some ''E42'') (Some 500))))
         \<and> sublist (the (ts_code (AuthenticationError ''boom'')))
               (ts_toString String_example (AuthenticationError ''boom''))
         \<and> sublist (js_String_number String_example (Num 120))
               (ts_toString String_example (RateLimitError ''boom'' (Num 120)))
         \<and> (truthy (Some ''limit'') \<longrightarrow> sublist (the (Some ''limit''))
               (ts_toString String_example (ValidationError ''boom'' (Some ''limit''))))"
    using string_forms [where e = "\<lparr>Code = ''E42'', Message = ''boom'', StatusCode = 500\<rparr>"
        and n = 120 and f = "''limit''" and c = "Some ''E42''" and m = "''boom''"
        and s = "Some 500" and r = "Num 120" and fo = "Some ''limit''" and S = String_example]
    by blast
  have i: "Itoa 120 = ''120''"
    by (simp add: Itoa_def digits.simps)
  have j: "js_String_number String_example (Num 120) = ''120''"
    by (simp add: js_String_number_def i)
  have a: "Error_Error \<lparr>Code = ''E42'', Message = ''boom'', StatusCode = 500\<rparr> = ''[E42] boom''"
    by (simp add: Error_Error_def)
  have b: "RateLimitError_Error \<lparr>Code = ''E42'', Message = ''boom'', StatusCode = 500\<rparr> 120
        = ''boom. Retry after 120 seconds.''"
    by (simp add: RateLimitError_Error_def i)
  have c: "ts_toString String_example (MeshLogicError ''boom'' (Some ''E42'') (Some 500)) = ''[E42] boom''"
    by (simp add: MeshLogicError_toString_def)
  from k i j a b c show ?thesis
    by simp
qed

text \<open>
  C9 as stated fails: a TypeScript rate-limit error always has the code
  \<^verbatim>\<open>RATE_LIMIT\<close>, and its string form does not contain it.
\<close>

theorem string_form_counterexample:
  "ts_code (RateLimitError ''Rate limit exceeded'' (Num 60)) = Some ''RATE_LIMIT''
   \<and> ts_toString String_example (RateLimitError ''Rate limit exceeded'' (Num 60))
       = ''Rate limit exceeded. Retry after 60 seconds.''
   \<and> \<not> sublist ''RATE_LIMIT'' (ts_toString String_example (RateLimitError ''Rate limit exceeded'' (Num 60)))"
  by (simp add: RateLimitError_toString_def js_String_number_def Itoa_def digits.simps sublist_Cons_right)

subsection \<open>Client construction: the API key\<close>

text \<open>Whether an option is one made by \<^verbatim>\<open>WithAPIKey\<close>.\<close>

fun sets_apiKey :: "ClientOption \<Rightarrow> bool" where
  "sets_apiKey (WithAPIKey k) = True"
| "sets_apiKey opt = False"

lemma apply_options_snoc: "apply_options (opts @ [opt]) c = apply_option opt (apply_options opts c)"
  by (simp add: apply_options_def)

lemma apply_options_Cons: "apply_options (opt # opts) c = apply_options opts (apply_option opt c)"
  by (simp add: apply_options_def)

lemma apply_option_apiKey: "\<not> sets_apiKey opt \<Longrightarrow> apiKey (apply_option opt c) = apiKey c"
  by (cases opt) (simp_all split: option.splits)

lemma apply_options_apiKey:
  "\<forall>opt \<in> set opts. \<not> sets_apiKey opt \<Longrightarrow> apiKey (apply_options opts c) = apiKey c"
proof (induction opts arbitrary: c)
  case Nil
  then show ?case by (simp add: apply_options_def)
next
  case (Cons opt opts)
  then show ?case by (simp add: apply_option_apiKey apply_options_Cons)
qed

lemma apply_option_rest:
  "baseURL c = baseURL c' \<Longrightarrow> httpClient c = httpClient c' \<Longrightarrow>
   baseURL (apply_option opt c) = baseURL (apply_option opt c')
   \<and> httpClient (apply_option opt c) = httpClient (apply_option opt c')"
  by (cases opt) (simp_all split: option.splits)

lemma apply_options_drop_keys:
  "baseURL (apply_options (filter (\<lambda>opt. \<not> sets_apiKey opt) opts) c) = baseURL (apply_options opts c)
   \<and> httpClient (apply_options (filter (\<lambda>opt. \<not> sets_apiKey opt) opts) c) = httpClient (apply_options opts c)"
proof (induction opts rule: rev_induct)
  case Nil
  then show ?case by simp
next
  case (snoc opt opts)
  show ?case
  proof (cases "sets_apiKey opt")
    case True
    then obtain k where "opt = WithAPIKey k" by (cases opt) simp_all
    with snoc show ?thesis by (simp add: apply_options_snoc)
  next
    case False
    with snoc apply_option_rest [of "apply_options (filter (\<lambda>opt. \<not> sets_apiKey opt) opts) c" "apply_options opts c" opt]
    show ?thesis by (simp add: apply_options_snoc)
  qed
qed

lemma NewClient_of_resolved:
  "NewClient env opts =
     (let c = apply_options opts initial_Client in
      if apiKey c \<noteq> '''' then Inr c
      else if Getenv env = ''''
        then Inl (Go_Error \<lparr>Code = ''AUTH_ERROR'',
                Message = ''API key required. Provide via WithAPIKey() or MESHLOGIC_API_KEY environment variable.'',
                StatusCode = 0\<rparr>)
        else Inr (c\<lparr>apiKey := Getenv env\<rparr>))"
  by (simp add: NewClient_def Let_def)

text \<open>
  C10. An API key given explicitly as the empty string is treated as no key at all.
  Go: ending the options with \<^verbatim>\<open>WithAPIKey("")\<close> gives the result of the same
  options with every key option removed; whenever the options leave the key empty,
  construction takes the key from \<^verbatim>\<open>MESHLOGIC_API_KEY\<close> and fails only if that is
  empty or unset. TypeScript: the configuration with \<^verbatim>\<open>apiKey: ''\<close> constructs
  what the configuration without an \<^verbatim>\<open>apiKey\<close> does, the key of the environment
  variable when that is set and non-empty and the error otherwise. In both variants a
  constructed client never holds the empty key.
\<close>

theorem empty_api_key_is_absent:
  "NewClient env (opts @ [WithAPIKey '''']) = NewClient env (filter (\<lambda>opt. \<not> sets_apiKey opt) opts)
   \<and> (apiKey (apply_options opts initial_Client) = '''' \<longrightarrow>
        NewClient env opts =
          (if Getenv env = ''''
           then Inl (Go_Error \<lparr>Code = ''AUTH_ERROR'',
                  Message = ''API key required. Provide via WithAPIKey() or MESHLOGIC_API_KEY environment variable.'',
                  StatusCode = 0\<rparr>)
           else Inr ((apply_options opts initial_Client)\<lparr>apiKey := Getenv env\<rparr>)))
   \<and> (\<forall>c. NewClient env opts = Inr c \<longrightarrow> apiKey c \<noteq> '''')
   \<and> new_MeshLogicClient env (config\<lparr>config_apiKey := Some ''''\<rparr>)
       = new_MeshLogicClient env (config\<lparr>config_apiKey := None\<rparr>)
   \<and> (\<not> truthy (config_apiKey config) \<longrightarrow>
        (case new_MeshLogicClient env config of
           Inl err \<Rightarrow> \<not> truthy env
             \<and> err = AuthenticationError
                  ''API key required. Provide via apiKey option or MESHLOGIC_API_KEY environment variable.''
         | Inr this \<Rightarrow> truthy env \<and> Some (this_apiKey this) = env))
   \<and> (\<forall>this. new_MeshLogicClient env config = Inr this \<longrightarrow> this_apiKey this \<noteq> '''')"
proof -
  let ?nk = "\<lambda>opt. \<not> sets_apiKey opt"
  have key1: "apiKey (apply_options (opts @ [WithAPIKey '''']) initial_Client) = ''''"
    by (simp add: apply_options_snoc)
  have key2: "apiKey (apply_options (filter ?nk opts) initial_Client) = ''''"
    using apply_options_apiKey [of "filter ?nk opts" initial_Client]
    by (simp add: initial_Client_def)
  have "apply_options (opts @ [WithAPIKey '''']) initial_Client
        = apply_options (filter ?nk opts) initial_Client"
    using key1 key2 apply_options_drop_keys [of opts initial_Client]
    by (intro Client.equality) (simp_all add: apply_options_snoc)
  then have g1: "NewClient env (opts @ [WithAPIKey '''']) = NewClient env (filter ?nk opts)"
    by (simp only: NewClient_of_resolved)
  have g2: "apiKey (apply_options opts initial_Client) = '''' \<longrightarrow>
        NewClient env opts =
          (if Getenv env = ''''
           then Inl (Go_Error \<lparr>Code = ''AUTH_ERROR'',
                  Message = ''API key required. Provide via WithAPIKey() or MESHLOGIC_API_KEY environment variable.'',
                  StatusCode = 0\<rparr>)
           else Inr ((apply_options opts initial_Client)\<lparr>apiKey := Getenv env\<rparr>))"
    by (simp add: NewClient_of_resolved Let_def)
  have g3: "\<forall>c. NewClient env opts = Inr c \<longrightarrow> apiKey c \<noteq> ''''"
    by (auto simp: NewClient_of_resolved Let_def split: if_splits)
  have t1: "new_MeshLogicClient env (config\<lparr>config_apiKey := Some ''''\<rparr>)
       = new_MeshLogicClient env (config\<lparr>config_apiKey := None\<rparr>)"
    by (simp add: new_MeshLogicClient_def or_else_def Let_def)
  have t2: "\<not> truthy (config_apiKey config) \<longrightarrow>
        (case new_MeshLogicClient env config of
           Inl err \<Rightarrow> \<not> truthy env
             \<and> err = AuthenticationError
                  ''API key required. Provide via apiKey option or MESHLOGIC_API_KEY environment variable.''
         | Inr this \<Rightarrow> truthy env \<and> Some (this_apiKey this) = env)"
    by (cases env) (auto simp: new_MeshLogicClient_def or_else_def Let_def)
  have t3: "\<forall>this. new_MeshLogicClient env config = Inr this \<longrightarrow> this_apiKey this \<noteq> ''''"
    by (auto simp: new_MeshLogicClient_def Let_def split: if_splits)
  from g1 g2 g3 t1 t2 t3 show ?thesis by blast
qed

theorem empty_api_key_is_absent_witness:
  "apiKey (apply_options [WithRegion ''us-east-1'', WithAPIKey ''''] initial_Client) = ''''
   \<and> NewClient (Some ''env-key'') [WithRegion ''us-east-1'', WithAPIKey '''']
     = Inr \<lparr>apiKey = ''env-key'', baseURL = ''https://api.us.meshlogic.ai'',
            httpClient = \<lparr>Timeout = 30000000000\<rparr>\<rparr>
   \<and> apiKey \<lparr>apiKey = ''env-key'', baseURL = ''https://api.us.meshlogic.ai'',
            httpClient = \<lparr>Timeout = 30000000000\<rparr>\<rparr> \<noteq> ''''
   \<and> \<not> truthy (config_apiKey \<lparr>config_apiKey = Some '''', config_region = None,
                      config_baseUrl = None, config_timeout = None\<rparr>)
   \<and> new_MeshLogicClient (Some ''env-key'')
        \<lparr>config_apiKey = Some '''', config_region = None, config_baseUrl = None, config_timeout = None\<rparr>
     = Inr \<lparr>this_apiKey = ''env-key'', this_baseUrl = URL_text ''https://api.meshlogic.ai'', this_timeout = 30000\<rparr>
   \<and> this_apiKey \<lparr>this_apiKey = ''env-key'', this_baseUrl = URL_text ''https://api.meshlogic.ai'',
                    this_timeout = 30000\<rparr> \<noteq> ''''"
proof -
  let ?opts = "[WithRegion ''us-east-1'', WithAPIKey '''']"
  let ?cfg = "\<lparr>config_apiKey = Some '''', config_region = None, config_baseUrl = None,
               config_timeout = None\<rparr>"
  note t = empty_api_key_is_absent [of "Some ''env-key''" ?opts ?cfg]
  have h1: "apiKey (apply_options ?opts initial_Client) = ''''"
    by (simp add: apply_options_def)
  from t h1 have "NewClient (Some ''env-key'') ?opts =
          (if Getenv (Some ''env-key'') = ''''
           then Inl (Go_Error \<lparr>Code = ''AUTH_ERROR'',
                  Message = ''API key required. Provide via WithAPIKey() or MESHLOGIC_API_KEY environment variable.'',
                  StatusCode = 0\<rparr>)
           else Inr ((apply_options ?opts initial_Client)\<lparr>apiKey := Getenv (Some ''env-key'')\<rparr>))"
    by blast
  then have g: "NewClient (Some ''env-key'') ?opts
     = Inr \<lparr>apiKey = ''env-key'', baseURL = ''https://api.us.meshlogic.ai'',
            httpClient = \<lparr>Timeout = 30000000000\<rparr>\<rparr>"
    by (simp add: Getenv_def apply_options_def initial_Client_def endpoints_def endpoints_at_def)
  have h2: "\<not> truthy (config_apiKey ?cfg)"
    by simp
  have ts: "new_MeshLogicClient (Some ''env-key'') ?cfg
     = Inr \<lparr>this_apiKey = ''env-key'', this_baseUrl = URL_text ''https://api.meshlogic.ai'', this_timeout = 30000\<rparr>"
    by (simp add: new_MeshLogicClient_def or_else_def ENDPOINTS_at_def ENDPOINTS_def
        Object_prototype_def timeout_or_default_def Let_def)
  from h1 g h2 ts show ?thesis
    by simp
qed

text \<open>
  C4, as the code has it. With no key option (Go) or no \<^verbatim>\<open>apiKey\<close> (TypeScript) and
  the environment variable unset, construction fails and returns no client; it is a
  function of the options and the environment alone, so no network call precedes the
  failure. TypeScript throws an \<^verbatim>\<open>AuthenticationError\<close>. Go returns a plain
  \<^verbatim>\<open>*Error\<close> with the code \<^verbatim>\<open>AUTH_ERROR\<close>, not the package's
  \<^verbatim>\<open>AuthenticationError\<close> type.
\<close>

theorem construction_without_key:
  "((\<forall>opt \<in> set opts. \<not> sets_apiKey opt) \<longrightarrow>
      NewClient None opts =
        Inl (Go_Error \<lparr>Code = ''AUTH_ERROR'',
               Message = ''API key required. Provide via WithAPIKey() or MESHLOGIC_API_KEY environment variable.'',
               StatusCode = 0\<rparr>))
   \<and> (config_apiKey config = None \<longrightarrow>
      new_MeshLogicClient None config =
        Inl (AuthenticationError
               ''API key required. Provide via apiKey option or MESHLOGIC_API_KEY environment variable.''))"
proof -
  have "apiKey (apply_options opts initial_Client) = ''''" if "\<forall>opt \<in> set opts. \<not> sets_apiKey opt"
    using apply_options_apiKey [OF that, of initial_Client] by (simp add: initial_Client_def)
  then show ?thesis
    by (simp add: NewClient_of_resolved Getenv_def new_MeshLogicClient_def or_else_def Let_def)
qed

theorem construction_without_key_witness:
  "\<not> sets_apiKey (WithRegion ''eu-west-1'') \<and> \<not> sets_apiKey (WithTimeout 5000000000)
   \<and> go_failure (NewClient None [WithRegion ''eu-west-1'', WithTimeout 5000000000]) =
       Some (Go_Error \<lparr>Code = ''AUTH_ERROR'',
               Message = ''API key required. Provide via WithAPIKey() or MESHLOGIC_API_KEY environment variable.'',
               StatusCode = 0\<rparr>)
   \<and> config_apiKey \<lparr>config_apiKey = None, config_region = Some ''eu-west-1'',
                     config_baseUrl = None, config_timeout = Some 5000\<rparr> = None
   \<and> map_option ts_kind (ts_failure (map_sum Thrown id (new_MeshLogicClient None
        \<lparr>config_apiKey = None, config_region = Some ''eu-west-1'',
         config_baseUrl = None, config_timeout = Some 5000\<rparr>))) = Some Authentication"
  using construction_without_key [of "[WithRegion ''eu-west-1'', WithTimeout 5000000000]"
      "\<lparr>config_apiKey = None, config_region = Some ''eu-west-1'',
         config_baseUrl = None, config_timeout = Some 5000\<rparr>"]
  by (simp add: go_failure_def ts_failure_def)

text \<open>
  C4 as stated fails in Go: the error of a construction without any key is of the base
  kind, not an authentication error.
\<close>

theorem construction_without_key_counterexample:
  "NewClient None [] =
     Inl (Go_Error \<lparr>Code = ''AUTH_ERROR'',
            Message = ''API key required. Provide via WithAPIKey() or MESHLOGIC_API_KEY environment variable.'',
            StatusCode = 0\<rparr>)
   \<and> map_option go_kind (go_failure (NewClient None [])) \<noteq> Some Authentication"
  by (simp add: NewClient_def apply_options_def initial_Client_def Getenv_def go_failure_def Let_def)

subsection \<open>Client construction: the base URL\<close>

lemma NewClient_baseURL: "NewClient env opts = Inr c \<Longrightarrow> baseURL c = baseURL (apply_options opts initial_Client)"
  by (auto simp: NewClient_of_resolved Let_def split: if_splits)

text \<open>
  C5, as the code has it. Both variants hold a fixed table of three regions, with
  \<^verbatim>\<open>ap-southeast-2\<close> mapped to \<^verbatim>\<open>https://api.meshlogic.ai\<close>.

  Go applies the options in the order given, starting from the URL of
  \<^verbatim>\<open>ap-southeast-2\<close>: \<^verbatim>\<open>WithBaseURL\<close> sets the base URL,
  \<^verbatim>\<open>WithRegion\<close> with a known region sets it to that region's URL, also over an
  earlier \<^verbatim>\<open>WithBaseURL\<close>, and \<^verbatim>\<open>WithRegion\<close> with an unknown region
  leaves it as it is, without an error; the other options do not touch it. So the later
  of a base URL option and a known region wins, and an unknown region yields the
  default only when nothing set the base URL before it.

  TypeScript: a non-empty \<^verbatim>\<open>baseUrl\<close> takes precedence over any region;
  otherwise the region (\<^verbatim>\<open>ap-southeast-2\<close> when absent or empty) is looked up in
  the table, and an unknown region falls back to the URL of \<^verbatim>\<open>ap-southeast-2\<close>
  silently, provided the region is not the name of a member that the table inherits as
  an object. For those twelve names see \<open>ts_region_inherited\<close> below.
\<close>

theorem base_url_resolution:
  "length endpoints = 3 \<and> distinct (map fst endpoints)
   \<and> map_of endpoints ''ap-southeast-2'' = Some ''https://api.meshlogic.ai''
   \<and> baseURL (apply_options [] initial_Client) = ''https://api.meshlogic.ai''
   \<and> baseURL (apply_options (opts @ [WithBaseURL u]) c0) = u
   \<and> baseURL (apply_options (opts @ [WithRegion region]) c0)
       = (case map_of endpoints region of
            Some endpoint \<Rightarrow> endpoint
          | None \<Rightarrow> baseURL (apply_options opts c0))
   \<and> baseURL (apply_options (opts @ [WithAPIKey k]) c0) = baseURL (apply_options opts c0)
   \<and> baseURL (apply_options (opts @ [WithHTTPClient h]) c0) = baseURL (apply_options opts c0)
   \<and> baseURL (apply_options (opts @ [WithTimeout t]) c0) = baseURL (apply_options opts c0)
   \<and> (\<forall>c. NewClient env opts = Inr c \<longrightarrow> baseURL c = baseURL (apply_options opts initial_Client))
   \<and> length ENDPOINTS = 3 \<and> distinct (map fst ENDPOINTS)
   \<and> map_of ENDPOINTS ''ap-southeast-2'' = Some ''https://api.meshlogic.ai''
   \<and> (\<forall>this. new_MeshLogicClient env config = Inr this \<longrightarrow>
         (truthy (config_baseUrl config) \<longrightarrow>
            this_baseUrl this = URL_text (the (config_baseUrl config)))
         \<and> (\<not> truthy (config_baseUrl config)
              \<and> or_else (config_region config) ''ap-southeast-2'' \<notin> set Object_prototype \<longrightarrow>
            this_baseUrl this =
              URL_text
                (case map_of ENDPOINTS (or_else (config_region config) ''ap-southeast-2'') of
                   Some url \<Rightarrow> url
                 | None \<Rightarrow> ''https://api.meshlogic.ai'')))"
proof -
  have tbl: "length endpoints = 3 \<and> distinct (map fst endpoints)
      \<and> map_of endpoints ''ap-southeast-2'' = Some ''https://api.meshlogic.ai''"
    by (simp add: endpoints_def)
  have init: "baseURL (apply_options [] initial_Client) = ''https://api.meshlogic.ai''"
    by (simp add: apply_options_def initial_Client_def endpoints_at_def endpoints_def)
  have step: "baseURL (apply_options (opts @ [WithBaseURL u]) c0) = u
      \<and> baseURL (apply_options (opts @ [WithRegion region]) c0)
          = (case map_of endpoints region of
               Some endpoint \<Rightarrow> endpoint
             | None \<Rightarrow> baseURL (apply_options opts c0))
      \<and> baseURL (apply_options (opts @ [WithAPIKey k]) c0) = baseURL (apply_options opts c0)
      \<and> baseURL (apply_options (opts @ [WithHTTPClient h]) c0) = baseURL (apply_options opts c0)
      \<and> baseURL (apply_options (opts @ [WithTimeout t]) c0) = baseURL (apply_options opts c0)"
    by (simp add: apply_options_snoc split: option.splits)
  have go: "\<forall>c. NewClient env opts = Inr c \<longrightarrow> baseURL c = baseURL (apply_options opts initial_Client)"
    using NewClient_baseURL by blast
  have TBL: "length ENDPOINTS = 3 \<and> distinct (map fst ENDPOINTS)
      \<and> map_of ENDPOINTS ''ap-southeast-2'' = Some ''https://api.meshlogic.ai''"
    by (simp add: ENDPOINTS_def)
  have look: "r \<notin> set Object_prototype \<Longrightarrow>
      (if truthy_value (ENDPOINTS_at r) then the (ENDPOINTS_at r)
       else the (ENDPOINTS_at ''ap-southeast-2''))
        = URL_text (case map_of ENDPOINTS r of Some url \<Rightarrow> url | None \<Rightarrow> ''https://api.meshlogic.ai'')" for r
    by (cases "map_of ENDPOINTS r") (auto simp: ENDPOINTS_at_def ENDPOINTS_def split: if_splits)
  have ts: "(\<forall>this. new_MeshLogicClient env config = Inr this \<longrightarrow>
         (truthy (config_baseUrl config) \<longrightarrow>
            this_baseUrl this = URL_text (the (config_baseUrl config)))
         \<and> (\<not> truthy (config_baseUrl config)
              \<and> or_else (config_region config) ''ap-southeast-2'' \<notin> set Object_prototype \<longrightarrow>
            this_baseUrl this =
              URL_text
                (case map_of ENDPOINTS (or_else (config_region config) ''ap-southeast-2'') of
                   Some url \<Rightarrow> url
                 | None \<Rightarrow> ''https://api.meshlogic.ai'')))"
  proof (intro allI impI conjI)
    fix this
    assume "new_MeshLogicClient env config = Inr this" and "truthy (config_baseUrl config)"
    then show "this_baseUrl this = URL_text (the (config_baseUrl config))"
      by (auto simp: new_MeshLogicClient_def Let_def split: if_splits)
  next
    fix this
    assume n: "new_MeshLogicClient env config = Inr this"
      and h: "\<not> truthy (config_baseUrl config)
              \<and> or_else (config_region config) ''ap-southeast-2'' \<notin> set Object_prototype"
    from h have nm: "or_else (config_region config) ''ap-southeast-2'' \<notin> set Object_prototype"
      by blast
    from n h have "this_baseUrl this =
        (if truthy_value (ENDPOINTS_at (or_else (config_region config) ''ap-southeast-2''))
         then the (ENDPOINTS_at (or_else (config_region config) ''ap-southeast-2''))
         else the (ENDPOINTS_at ''ap-southeast-2''))"
      by (auto simp: new_MeshLogicClient_def Let_def split: if_splits)
    then show "this_baseUrl this =
              URL_text
                (case map_of ENDPOINTS (or_else (config_region config) ''ap-southeast-2'') of
                   Some url \<Rightarrow> url
                 | None \<Rightarrow> ''https://api.meshlogic.ai'')"
      using look [OF nm] by (rule trans)
  qed
  from tbl init step go TBL ts show ?thesis
    by blast
qed

theorem base_url_resolution_witness:
  "NewClient (Some ''key'') [WithRegion ''eu-west-1'', WithRegion ''mars-1'']
     = Inr \<lparr>apiKey = ''key'', baseURL = ''https://api.eu.meshlogic.ai'',
            httpClient = \<lparr>Timeout = 30000000000\<rparr>\<rparr>
   \<and> baseURL \<lparr>apiKey = ''key'', baseURL = ''https://api.eu.meshlogic.ai'',
            httpClient = \<lparr>Timeout = 30000000000\<rparr>\<rparr>
       = baseURL (apply_options [WithRegion ''eu-west-1'', WithRegion ''mars-1''] initial_Client)
   \<and> new_MeshLogicClient (Some ''key'')
        \<lparr>config_apiKey = None, config_region = Some ''mars-1'', config_baseUrl = None, config_timeout = None\<rparr>
     = Inr \<lparr>this_apiKey = ''key'', this_baseUrl = URL_text ''https://api.meshlogic.ai'', this_timeout = 30000\<rparr>
   \<and> new_MeshLogicClient (Some ''key'')
        \<lparr>config_apiKey = None, config_region = Some ''us-east-1'',
         config_baseUrl = Some ''https://proxy.example.test'', config_timeout = None\<rparr>
     = Inr \<lparr>this_apiKey = ''key'', this_baseUrl = URL_text ''https://proxy.example.test'', this_timeout = 30000\<rparr>"
proof -
  let ?opts = "[WithRegion ''eu-west-1'', WithRegion ''mars-1'']"
  let ?cfg = "\<lparr>config_apiKey = None, config_region = Some ''mars-1'', config_baseUrl = None,
               config_timeout = None\<rparr>"
  let ?cfg2 = "\<lparr>config_apiKey = None, config_region = Some ''us-east-1'',
         config_baseUrl = Some ''https://proxy.example.test'', config_timeout = None\<rparr>"
  note t = base_url_resolution [of ?opts "''u''" initial_Client "''mars-1''"
      "''k''" "\<lparr>Timeout = 1\<rparr>" 1 "Some ''key''" ?cfg]
  have g: "NewClient (Some ''key'') ?opts
     = Inr \<lparr>apiKey = ''key'', baseURL = ''https://api.eu.meshlogic.ai'',
            httpClient = \<lparr>Timeout = 30000000000\<rparr>\<rparr>"
    by (simp add: NewClient_def apply_options_def initial_Client_def endpoints_at_def endpoints_def
        Getenv_def Let_def)
  from t have "\<forall>c. NewClient (Some ''key'') ?opts = Inr c \<longrightarrow> baseURL c = baseURL (apply_options ?opts initial_Client)"
    by blast
  with g have b: "baseURL \<lparr>apiKey = ''key'', baseURL = ''https://api.eu.meshlogic.ai'',
            httpClient = \<lparr>Timeout = 30000000000\<rparr>\<rparr>
       = baseURL (apply_options ?opts initial_Client)"
    by blast
  have ts: "new_MeshLogicClient (Some ''key'') ?cfg
     = Inr \<lparr>this_apiKey = ''key'', this_baseUrl = URL_text ''https://api.meshlogic.ai'', this_timeout = 30000\<rparr>"
    by (simp add: new_MeshLogicClient_def or_else_def ENDPOINTS_at_def ENDPOINTS_def
        Object_prototype_def timeout_or_default_def Let_def)
  have ts2: "new_MeshLogicClient (Some ''key'') ?cfg2
     = Inr \<lparr>this_apiKey = ''key'', this_baseUrl = URL_text ''https://proxy.example.test'', this_timeout = 30000\<rparr>"
    by (simp add: new_MeshLogicClient_def or_else_def ENDPOINTS_at_def ENDPOINTS_def
        Object_prototype_def timeout_or_default_def Let_def)
  from g b ts ts2 show ?thesis
    by blast
qed

text \<open>
  Not covered by the property above: a region that is the name of an inherited member, such as
  \<^verbatim>\<open>constructor\<close> or \<^verbatim>\<open>toString\<close>. The lookup then finds that member, which
  is truthy, so there is no fallback and the client's base URL is not a URL.
\<close>

lemma ts_region_inherited:
  "new_MeshLogicClient (Some ''key'')
        \<lparr>config_apiKey = None, config_region = Some ''constructor'', config_baseUrl = None,
         config_timeout = None\<rparr>
     = Inr \<lparr>this_apiKey = ''key'', this_baseUrl = Inherited_member ''constructor'',
            this_timeout = 30000\<rparr>"
  by (simp add: new_MeshLogicClient_def or_else_def ENDPOINTS_at_def ENDPOINTS_def
      Object_prototype_def timeout_or_default_def Let_def)

text \<open>
  C5 as stated fails in Go: a region option after an explicit base URL overrides it.
\<close>

theorem base_url_resolution_counterexample:
  "NewClient (Some ''key'') [WithBaseURL ''https://proxy.example.test'', WithRegion ''us-east-1'']
     = Inr \<lparr>apiKey = ''key'', baseURL = ''https://api.us.meshlogic.ai'',
            httpClient = \<lparr>Timeout = 30000000000\<rparr>\<rparr>
   \<and> ''https://api.us.meshlogic.ai'' \<noteq> ''https://proxy.example.test''"
  by (simp add: NewClient_def apply_options_def initial_Client_def endpoints_at_def endpoints_def
      Getenv_def Let_def)

subsection \<open>Decimal strings are read back as their value\<close>

lemma digit_char:
  "n < 10 \<Longrightarrow> is_digit (''0123456789'' ! n) \<and> digit_value (''0123456789'' ! n) = n"
proof -
  assume "n < 10"
  then have "n = 0 \<or> n = 1 \<or> n = 2 \<or> n = 3 \<or> n = 4 \<or> n = 5 \<or> n = 6 \<or> n = 7 \<or> n = 8 \<or> n = 9"
    by arith
  then show ?thesis
    by (elim disjE) (simp_all add: is_digit_def digit_value_def)
qed

lemma digits_all_digit: "\<forall>c \<in> set (digits n). is_digit c"
proof (induction n rule: digits.induct)
  case (1 n)
  show ?case
  proof (cases "n < 10")
    case True
    then show ?thesis using digit_char [of n] by (subst digits.simps) simp
  next
    case False
    then have "n mod 10 < 10" by simp
    with False 1 show ?thesis using digit_char [of "n mod 10"] by (subst digits.simps) simp
  qed
qed

lemma digits_nonempty: "digits n \<noteq> []"
  by (subst digits.simps) simp

lemma decimal_snoc: "decimal (ds @ [c]) = 10 * decimal ds + digit_value c"
  by (simp add: decimal_def)

lemma decimal_digits: "decimal (digits n) = n"
proof (induction n rule: digits.induct)
  case (1 n)
  show ?case
  proof (cases "n < 10")
    case True
    then show ?thesis using digit_char [of n] by (subst digits.simps) (simp add: decimal_def)
  next
    case False
    then have "n mod 10 < 10" by simp
    with False 1 show ?thesis
      using digit_char [of "n mod 10"] by (subst digits.simps) (simp add: decimal_snoc)
  qed
qed

lemma takeWhile_digits: "takeWhile is_digit (digits n) = digits n"
  using digits_all_digit by (simp add: takeWhile_eq_all_conv)

lemma hd_digits: "is_digit (hd (digits n))"
  using digits_all_digit [of n] digits_nonempty [of n] by (cases "digits n") simp_all

lemma is_digit_not_sign: "is_digit c \<Longrightarrow> c \<noteq> CHR ''-'' \<and> c \<noteq> CHR ''+''"
  by (auto simp: is_digit_def)

lemma take_2_Cons: "take 2 (c # cs) = c # take 1 cs"
  by (simp add: numeral_2_eq_2)

lemma take_3_Cons: "take 3 (c # cs) = c # take 2 cs"
  by (simp add: numeral_3_eq_3 numeral_2_eq_2)

lemma space_width_0:
  "c \<notin> set [CHR 0x09, CHR 0x0B, CHR 0x0C, CHR 0x0D, CHR 0x20, CHR 0xC2, CHR 0xE1, CHR 0xE2, CHR 0xE3]
   \<Longrightarrow> space_width (c # cs) = 0"
  unfolding space_width_def take_2_Cons take_3_Cons by simp

lemma space_width_plain:
  "is_digit c \<or> c = CHR ''+'' \<or> c = CHR ''-'' \<Longrightarrow> space_width (c # cs) = 0"
  by (rule space_width_0) (auto simp: is_digit_def)

lemma SkipSpace_plain:
  "is_digit c \<or> c = CHR ''+'' \<or> c = CHR ''-'' \<Longrightarrow> SkipSpace (c # cs) = Some (c # cs)"
  by (subst SkipSpace.simps) (auto simp: space_width_plain is_digit_def)

lemma white_space_plain:
  "is_digit c \<or> c = CHR ''+'' \<or> c = CHR ''-'' \<Longrightarrow> \<not> white_space c"
  by (auto simp: white_space_def is_digit_def)

lemma takeWhile_run:
  "\<forall>c \<in> set ds. P c \<Longrightarrow> rest = [] \<or> \<not> P (hd rest) \<Longrightarrow> takeWhile P (ds @ rest) = ds"
  by (cases rest) (simp_all add: takeWhile_append2)

lemma signed_digits_run:
  assumes "ds \<noteq> []" and "\<forall>c \<in> set ds. is_digit c" and "rest = [] \<or> \<not> is_digit (hd rest)"
  shows "signed_digits (ds @ rest) = Some (int (decimal ds))"
    and "signed_digits (''+'' @ ds @ rest) = Some (int (decimal ds))"
    and "signed_digits (''-'' @ ds @ rest) = Some (- int (decimal ds))"
proof -
  from assms obtain c cs where d: "ds = c # cs" and c: "is_digit c"
    by (cases ds) auto
  have run: "takeWhile is_digit (ds @ rest) = ds"
    using assms takeWhile_run [where ds = ds and P = is_digit and rest = rest] by blast
  from run d show "signed_digits (ds @ rest) = Some (int (decimal ds))"
    using is_digit_not_sign [OF c] by (simp add: signed_digits_def Let_def)
  from run d show "signed_digits (''+'' @ ds @ rest) = Some (int (decimal ds))"
    by (simp add: signed_digits_def Let_def)
  from run d show "signed_digits (''-'' @ ds @ rest) = Some (- int (decimal ds))"
    by (simp add: signed_digits_def Let_def)
qed

lemma Sscanf_d_run:
  assumes "ds \<noteq> []" and "\<forall>c \<in> set ds. is_digit c" and "rest = [] \<or> \<not> is_digit (hd rest)"
  shows "Sscanf_d (ds @ rest)
           = (if int (decimal ds) < 2 ^ 63 then Some (int (decimal ds)) else None)"
    and "Sscanf_d (''+'' @ ds @ rest)
           = (if int (decimal ds) < 2 ^ 63 then Some (int (decimal ds)) else None)"
    and "Sscanf_d (''-'' @ ds @ rest)
           = (if int (decimal ds) \<le> 2 ^ 63 then Some (- int (decimal ds)) else None)"
proof -
  from assms obtain c cs where d: "ds = c # cs" and c: "is_digit c"
    by (cases ds) auto
  have s0: "SkipSpace (ds @ rest) = Some (ds @ rest)"
    using c d by (simp add: SkipSpace_plain)
  have s1: "SkipSpace (''+'' @ ds @ rest) = Some (''+'' @ ds @ rest)"
    by (simp add: SkipSpace_plain)
  have s2: "SkipSpace (''-'' @ ds @ rest) = Some (''-'' @ ds @ rest)"
    by (simp add: SkipSpace_plain)
  show "Sscanf_d (ds @ rest)
           = (if int (decimal ds) < 2 ^ 63 then Some (int (decimal ds)) else None)"
    by (simp only: Sscanf_d_def s0 option.case signed_digits_run [OF assms]) simp
  show "Sscanf_d (''+'' @ ds @ rest)
           = (if int (decimal ds) < 2 ^ 63 then Some (int (decimal ds)) else None)"
    by (simp only: Sscanf_d_def s1 option.case signed_digits_run [OF assms]) simp
  show "Sscanf_d (''-'' @ ds @ rest)
           = (if int (decimal ds) \<le> 2 ^ 63 then Some (- int (decimal ds)) else None)"
    by (simp only: Sscanf_d_def s2 option.case signed_digits_run [OF assms]) simp
qed

lemma parseInt_run:
  assumes "ds \<noteq> []" and "\<forall>c \<in> set ds. is_digit c" and "rest = [] \<or> \<not> is_digit (hd rest)"
  shows "parseInt (ds @ rest) = Num (int (decimal ds))"
    and "parseInt (''+'' @ ds @ rest) = Num (int (decimal ds))"
    and "parseInt (''-'' @ ds @ rest) = Num (- int (decimal ds))"
proof -
  from assms obtain c cs where d: "ds = c # cs" and c: "is_digit c"
    by (cases ds) auto
  have s0: "dropWhile white_space (ds @ rest) = ds @ rest"
    using c d by (simp add: white_space_plain)
  have s1: "dropWhile white_space (''+'' @ ds @ rest) = ''+'' @ ds @ rest"
    by (simp add: white_space_plain)
  have s2: "dropWhile white_space (''-'' @ ds @ rest) = ''-'' @ ds @ rest"
    by (simp add: white_space_plain)
  show "parseInt (ds @ rest) = Num (int (decimal ds))"
    by (simp only: parseInt_def s0 option.case signed_digits_run [OF assms])
  show "parseInt (''+'' @ ds @ rest) = Num (int (decimal ds))"
    by (simp only: parseInt_def s1 option.case signed_digits_run [OF assms])
  show "parseInt (''-'' @ ds @ rest) = Num (- int (decimal ds))"
    by (simp only: parseInt_def s2 option.case signed_digits_run [OF assms])
qed

lemma signed_digits_Itoa: "signed_digits (Itoa i) = Some i"
proof (cases "i < 0")
  case True
  then show ?thesis
    by (simp add: Itoa_def signed_digits_def Let_def takeWhile_digits digits_nonempty decimal_digits)
next
  case False
  then show ?thesis
    using is_digit_not_sign [OF hd_digits, of "nat i"]
    by (simp add: Itoa_def signed_digits_def Let_def takeWhile_digits digits_nonempty decimal_digits)
qed

lemma Itoa_plain:
  "\<exists>c cs. Itoa i = c # cs \<and> (is_digit c \<or> c = CHR ''+'' \<or> c = CHR ''-'')"
proof (cases "i < 0")
  case True
  then show ?thesis by (simp add: Itoa_def)
next
  case False
  obtain c cs where d: "digits (nat i) = c # cs"
    using digits_nonempty [of "nat i"] by (cases "digits (nat i)") auto
  with hd_digits [of "nat i"] have "is_digit c" by simp
  with False d show ?thesis by (simp add: Itoa_def)
qed

lemma SkipSpace_Itoa: "SkipSpace (Itoa i) = Some (Itoa i)"
proof -
  obtain c cs where "Itoa i = c # cs" and "is_digit c \<or> c = CHR ''+'' \<or> c = CHR ''-''"
    using Itoa_plain [of i] by blast
  then show ?thesis
    using SkipSpace_plain [of c cs] by simp
qed

lemma Sscanf_d_Itoa:
  "Sscanf_d (Itoa i) = (if - (2 ^ 63) \<le> i \<and> i < 2 ^ 63 then Some i else None)"
  by (simp add: Sscanf_d_def SkipSpace_Itoa signed_digits_Itoa)

lemma dropWhile_blank_Itoa: "dropWhile white_space (Itoa i) = Itoa i"
proof -
  obtain c cs where "Itoa i = c # cs" and "is_digit c \<or> c = CHR ''+'' \<or> c = CHR ''-''"
    using Itoa_plain [of i] by blast
  then show ?thesis
    using white_space_plain [of c] by simp
qed

lemma parseInt_Itoa: "parseInt (Itoa i) = Num i"
  by (simp only: parseInt_def dropWhile_blank_Itoa signed_digits_Itoa) simp

lemma SkipSpace_set: "SkipSpace s = Some t \<Longrightarrow> set t \<subseteq> set s"
proof (induction s rule: SkipSpace.induct)
  case (1 s)
  show ?case
  proof (cases "s = [] \<or> hd s = CHR 0x0A \<or> space_width s = 0")
    case True
    with "1.prems" show ?thesis
      by (subst (asm) SkipSpace.simps) (auto split: if_splits)
  next
    case False
    with "1.prems" have "SkipSpace (drop (space_width s) s) = Some t"
      by (subst (asm) SkipSpace.simps) simp
    with False "1.IH" have "set t \<subseteq> set (drop (space_width s) s)"
      by simp
    then show ?thesis
      using set_drop_subset [of "space_width s" s] by blast
  qed
qed

lemma signed_digits_digit: "signed_digits t = Some i \<Longrightarrow> \<exists>c \<in> set t. is_digit c"
proof -
  assume a: "signed_digits t = Some i"
  define u where "u = (if t \<noteq> [] \<and> (hd t = CHR ''+'' \<or> hd t = CHR ''-'') then tl t else t)"
  from a have "takeWhile is_digit u \<noteq> []"
    by (auto simp: signed_digits_def Let_def u_def split: if_splits)
  then obtain c where "c \<in> set (takeWhile is_digit u)"
    by (cases "takeWhile is_digit u") auto
  then have c: "c \<in> set u \<and> is_digit c"
    by (auto dest: set_takeWhileD)
  moreover have "set u \<subseteq> set t"
    by (cases t) (auto simp: u_def)
  ultimately show ?thesis by blast
qed

lemma Sscanf_d_digit: "Sscanf_d h = Some i \<Longrightarrow> \<exists>c \<in> set h. is_digit c"
proof -
  assume a: "Sscanf_d h = Some i"
  then obtain t j where t: "SkipSpace h = Some t" and j: "signed_digits t = Some j"
    by (auto simp: Sscanf_d_def split: option.splits)
  from signed_digits_digit [OF j] SkipSpace_set [OF t] show ?thesis
    by blast
qed

lemma Sscanf_d_space:
  "Sscanf_d (CHR '' '' # s) = Sscanf_d s"
  "Sscanf_d (CHR 0xC2 # CHR 0xA0 # s) = Sscanf_d s"
  "Sscanf_d (CHR 0x0A # s) = None"
proof -
  have "SkipSpace (CHR '' '' # s) = SkipSpace s"
    by (subst SkipSpace.simps) (simp add: space_width_def)
  then show "Sscanf_d (CHR '' '' # s) = Sscanf_d s"
    by (simp add: Sscanf_d_def)
  have "SkipSpace (CHR 0xC2 # CHR 0xA0 # s) = SkipSpace s"
    by (subst SkipSpace.simps) (simp add: space_width_def)
  then show "Sscanf_d (CHR 0xC2 # CHR 0xA0 # s) = Sscanf_d s"
    by (simp add: Sscanf_d_def)
  have "SkipSpace (CHR 0x0A # s) = None"
    by (subst SkipSpace.simps) simp
  then show "Sscanf_d (CHR 0x0A # s) = None"
    by (simp add: Sscanf_d_def)
qed

lemma parseInt_space: "white_space c \<Longrightarrow> parseInt (c # s) = parseInt s"
  by (simp add: parseInt_def)

lemma Itoa_nonempty: "Itoa i \<noteq> ''''"
  by (simp add: Itoa_def digits_nonempty)

subsection \<open>Failure responses\<close>

lemma Error_StatusCode_update:
  "e\<lparr>StatusCode := s\<rparr> = \<lparr>Code = Code e, Message = Message e, StatusCode = s\<rparr>"
  by (cases e) simp

lemma go_request_Responds_error:
  "resp_StatusCode resp \<ge> 400 \<Longrightarrow>
   go_request c verb path (Responds resp) =
     Inl (go_classify resp
            \<lparr>Code = (case resp_Unmarshal resp of Some e \<Rightarrow> Code e | None \<Rightarrow> ''UNKNOWN''),
             Message = (case resp_Unmarshal resp of Some e \<Rightarrow> Message e | None \<Rightarrow> resp_Body resp),
             StatusCode = resp_StatusCode resp\<rparr>)"
  by (cases "resp_Unmarshal resp") (simp_all add: go_request_def Let_def Error_StatusCode_update)

lemma go_base_classify: "go_base (go_classify resp e) = Some e"
  by (simp add: go_classify_def Let_def)

lemma go_kind_classify: "go_kind (go_classify resp e) = kind_of_status (resp_StatusCode resp)"
  by (simp add: go_classify_def kind_of_status_def Let_def)

lemma ts_request_not_ok:
  "\<not> ok response \<Longrightarrow>
   ts_request this verb path (fetch_resolves response) = Inl (Thrown (error_of_response path response))"
  by (simp add: ts_request_def)

lemma not_ok_400: "status response \<ge> 400 \<Longrightarrow> \<not> ok response"
  by (simp add: ok_def)

text \<open>
  C1, as the code has it. For every response with status 400 or more, the call fails
  with an error whose status code is the response's status and whose kind is chosen by
  the exact status: 401 authentication, 404 not found, 429 rate limit, any other the
  generic error.

  Go: code and message are the fields decoded from the body when
  \<^verbatim>\<open>json.Unmarshal\<close> accepts it, and otherwise the code is \<^verbatim>\<open>UNKNOWN\<close>
  and the message is the raw body.

  TypeScript, for a body that is not the JSON value \<^verbatim>\<open>null\<close>: the message is the
  body's \<^verbatim>\<open>message\<close> when the body is JSON and that property is non-empty, and
  otherwise a fixed text chosen by the status (the raw body and the status text are
  never used). The code is fixed by the error class for 401, 404 and 429
  (\<^verbatim>\<open>AUTH_ERROR\<close>, \<^verbatim>\<open>NOT_FOUND\<close>, \<^verbatim>\<open>RATE_LIMIT\<close>); only the generic
  error takes the body's \<^verbatim>\<open>code\<close>, with \<^verbatim>\<open>UNKNOWN\<close> when it is absent or
  empty. (A body that is \<^verbatim>\<open>null\<close> is left out: reading its property throws.)
\<close>

theorem error_of_failure_status:
  "(resp_StatusCode resp \<ge> 400 \<longrightarrow>
     (case go_failure (go_request c verb path (Responds resp)) of
        None \<Rightarrow> False
      | Some err \<Rightarrow>
          go_kind err = kind_of_status (resp_StatusCode resp)
          \<and> go_status err = Some (resp_StatusCode resp)
          \<and> go_code err = Some (case resp_Unmarshal resp of Some e \<Rightarrow> Code e | None \<Rightarrow> ''UNKNOWN'')
          \<and> go_message err
              = Some (case resp_Unmarshal resp of Some e \<Rightarrow> Message e | None \<Rightarrow> resp_Body resp)))
   \<and> (status response \<ge> 400 \<and> errorData response = Some d \<longrightarrow>
     (case ts_failure (ts_request this verb' path' (fetch_resolves response)) of
        None \<Rightarrow> False
      | Some err \<Rightarrow>
          ts_kind err = kind_of_status (status response)
          \<and> ts_statusCode err = Some (status response)
          \<and> ts_message err
              = or_else (prop_message d) (ts_fallback_message (status response) path')
          \<and> ts_code err
              = Some (if status response = 401 then ''AUTH_ERROR''
                      else if status response = 404 then ''NOT_FOUND''
                      else if status response = 429 then ''RATE_LIMIT''
                      else or_else (prop_code d) ''UNKNOWN'')))"
proof -
  have g: "case go_failure (go_request c verb path (Responds resp)) of
      None \<Rightarrow> False
    | Some err \<Rightarrow>
        go_kind err = kind_of_status (resp_StatusCode resp)
        \<and> go_status err = Some (resp_StatusCode resp)
        \<and> go_code err = Some (case resp_Unmarshal resp of Some e \<Rightarrow> Code e | None \<Rightarrow> ''UNKNOWN'')
        \<and> go_message err
            = Some (case resp_Unmarshal resp of Some e \<Rightarrow> Message e | None \<Rightarrow> resp_Body resp)"
    if go: "resp_StatusCode resp \<ge> 400"
    by (simp add: go_request_Responds_error [OF go] go_failure_def go_kind_classify
        go_status_def go_code_def go_message_def go_base_classify)
  have t: "case ts_failure (ts_request this verb' path' (fetch_resolves response)) of
      None \<Rightarrow> False
    | Some err \<Rightarrow>
        ts_kind err = kind_of_status (status response)
        \<and> ts_statusCode err = Some (status response)
        \<and> ts_message err
            = or_else (prop_message d) (ts_fallback_message (status response) path')
        \<and> ts_code err
            = Some (if status response = 401 then ''AUTH_ERROR''
                    else if status response = 404 then ''NOT_FOUND''
                    else if status response = 429 then ''RATE_LIMIT''
                    else or_else (prop_code d) ''UNKNOWN'')"
    if ts: "status response \<ge> 400" and d: "errorData response = Some d"
    by (simp add: ts_request_not_ok [OF not_ok_400 [OF ts]] ts_failure_def error_of_response_def d
        kind_of_status_def ts_fallback_message_def Let_def)
  from g t show ?thesis by blast
qed

theorem error_of_failure_status_witness:
  \<open>resp_StatusCode \<lparr>resp_StatusCode = 404, resp_Header = [], resp_Body = ''{"code":"NO_DEVICE","message":"no such device"}'',
         resp_Unmarshal = Some \<lparr>Code = ''NO_DEVICE'', Message = ''no such device'', StatusCode = 0\<rparr>\<rparr> \<ge> 400
   \<and> go_request \<lparr>apiKey = ''key'', baseURL = ''https://api.meshlogic.ai'', httpClient = \<lparr>Timeout = 30000000000\<rparr>\<rparr>
        ''GET'' ''/v1/devices/xyz''
        (Responds \<lparr>resp_StatusCode = 404, resp_Header = [], resp_Body = ''{"code":"NO_DEVICE","message":"no such device"}'',
           resp_Unmarshal = Some \<lparr>Code = ''NO_DEVICE'', Message = ''no such device'', StatusCode = 0\<rparr>\<rparr>)
     = Inl (Go_NotFoundError \<lparr>Code = ''NO_DEVICE'', Message = ''no such device'', StatusCode = 404\<rparr>)
   \<and> status \<lparr>status = 503, headers = [],
         json = Inr (Some \<lparr>json_source = ''{"code":"DOWN","message":"maintenance"}'',
                     prop_message = Some ''maintenance'', prop_code = Some ''DOWN''\<rparr>)\<rparr> \<ge> 400
   \<and> errorData \<lparr>status = 503, headers = [],
         json = Inr (Some \<lparr>json_source = ''{"code":"DOWN","message":"maintenance"}'',
                     prop_message = Some ''maintenance'', prop_code = Some ''DOWN''\<rparr>)\<rparr>
       = Some \<lparr>json_source = ''{"code":"DOWN","message":"maintenance"}'',
                prop_message = Some ''maintenance'', prop_code = Some ''DOWN''\<rparr>
   \<and> ts_request \<lparr>this_apiKey = ''key'', this_baseUrl = URL_text ''https://api.meshlogic.ai'', this_timeout = 30000\<rparr>
        ''GET'' ''/v1/devices/xyz''
        (fetch_resolves \<lparr>status = 503, headers = [],
           json = Inr (Some \<lparr>json_source = ''{"code":"DOWN","message":"maintenance"}'',
                       prop_message = Some ''maintenance'', prop_code = Some ''DOWN''\<rparr>)\<rparr>)
     = Inl (Thrown (MeshLogicError ''maintenance'' (Some ''DOWN'') (Some 503)))\<close>
proof -
  let ?resp = \<open>\<lparr>resp_StatusCode = 404, resp_Header = [], resp_Body = ''{"code":"NO_DEVICE","message":"no such device"}'',
         resp_Unmarshal = Some \<lparr>Code = ''NO_DEVICE'', Message = ''no such device'', StatusCode = 0\<rparr>\<rparr>\<close>
  let ?d = \<open>\<lparr>json_source = ''{"code":"DOWN","message":"maintenance"}'',
                     prop_message = Some ''maintenance'', prop_code = Some ''DOWN''\<rparr>\<close>
  let ?response = "\<lparr>status = 503, headers = [], json = Inr (Some ?d)\<rparr>"
  let ?c = "\<lparr>apiKey = ''key'', baseURL = ''https://api.meshlogic.ai'', httpClient = \<lparr>Timeout = 30000000000\<rparr>\<rparr>"
  let ?cl = "\<lparr>this_apiKey = ''key'', this_baseUrl = URL_text ''https://api.meshlogic.ai'', this_timeout = 30000\<rparr>"
  have h1: "resp_StatusCode ?resp \<ge> 400" by simp
  have h2: "status ?response \<ge> 400" by simp
  have h3: "errorData ?response = Some ?d" by (simp add: errorData_def)
  note t = error_of_failure_status [where resp = ?resp and response = ?response and d = ?d
      and c = ?c and verb = "''GET''" and path = "''/v1/devices/xyz''" and this = ?cl
      and verb' = "''GET''" and path' = "''/v1/devices/xyz''"]
  from t h1 have k: "case go_failure (go_request ?c ''GET'' ''/v1/devices/xyz'' (Responds ?resp)) of
        None \<Rightarrow> False
      | Some err \<Rightarrow>
          go_kind err = kind_of_status (resp_StatusCode ?resp)
          \<and> go_status err = Some (resp_StatusCode ?resp)
          \<and> go_code err = Some (case resp_Unmarshal ?resp of Some e \<Rightarrow> Code e | None \<Rightarrow> ''UNKNOWN'')
          \<and> go_message err
              = Some (case resp_Unmarshal ?resp of Some e \<Rightarrow> Message e | None \<Rightarrow> resp_Body ?resp)"
    by blast
  have g: "go_request ?c ''GET'' ''/v1/devices/xyz'' (Responds ?resp)
     = Inl (Go_NotFoundError \<lparr>Code = ''NO_DEVICE'', Message = ''no such device'', StatusCode = 404\<rparr>)"
    by (simp add: go_request_def go_classify_def Let_def)
  have e: "ts_request ?cl ''GET'' ''/v1/devices/xyz'' (fetch_resolves ?response)
     = Inl (Thrown (MeshLogicError ''maintenance'' (Some ''DOWN'') (Some 503)))"
    by (simp add: ts_request_def ok_def error_of_response_def errorData_def or_else_def Let_def)
  from k h1 h2 h3 g e show ?thesis by simp
qed

text \<open>
  C1 as stated fails in TypeScript: a 401 response whose JSON body carries the code
  \<^verbatim>\<open>TOKEN_EXPIRED\<close> yields an error with the code \<^verbatim>\<open>AUTH_ERROR\<close>.
\<close>

theorem error_of_failure_status_counterexample:
  \<open>ts_request \<lparr>this_apiKey = ''key'', this_baseUrl = URL_text ''https://api.meshlogic.ai'', this_timeout = 30000\<rparr>
        ''GET'' ''/v1/events''
        (fetch_resolves \<lparr>status = 401, headers = [],
           json = Inr (Some \<lparr>json_source = ''{"code":"TOKEN_EXPIRED","message":"token expired"}'',
                       prop_message = Some ''token expired'', prop_code = Some ''TOKEN_EXPIRED''\<rparr>)\<rparr>)
     = Inl (Thrown (AuthenticationError ''token expired''))
   \<and> ts_code (AuthenticationError ''token expired'') = Some ''AUTH_ERROR''
   \<and> ts_code (AuthenticationError ''token expired'') \<noteq> Some ''TOKEN_EXPIRED''\<close>
  by (simp add: ts_request_def ok_def error_of_response_def errorData_def or_else_def Let_def)

text \<open>
  The TypeScript variant on a failure response whose body is the JSON value
  \<^verbatim>\<open>null\<close>: whatever the status, the call ends with the error of the
  \<^verbatim>\<open>catch\<close> block, which has the code \<^verbatim>\<open>NETWORK_ERROR\<close> and no status.
\<close>

lemma ts_null_body:
  "ts_request this verb path (fetch_resolves \<lparr>status = 401, headers = [], json = Inr None\<rparr>)
   = Inl (Thrown (MeshLogicError (exn_String TypeError_of_null) (Some ''NETWORK_ERROR'') None))"
  by (simp add: ts_request_def ok_def error_of_response_def errorData_def catch_block_def
      TypeError_of_null_def)

text \<open>
  C2, as the code has it. For every 429 response the call fails with a rate-limit
  error.

  Go: the retry delay is the integer that \<^verbatim>\<open>fmt.Sscanf\<close> reads from the
  \<^verbatim>\<open>Retry-After\<close> header, and 60 when the header is missing or the scan reads
  none. The scan reads none from a header without a digit (the empty one included) and
  from one with a newline before the number. From a header that is an optional sign and
  a run of digits, alone or followed by something that is not a digit, it reads the
  signed decimal value of the run if that fits 64 bits, and nothing otherwise; leading
  spaces are skipped, the no-break space among them. In particular the decimal form of
  an integer is read back as that integer. The message is the decoded
  \<^verbatim>\<open>Message\<close> field, or the raw body when decoding fails; there is no fallback
  text.

  TypeScript, for a body that is not the JSON value \<^verbatim>\<open>null\<close>: the retry delay is
  the result of \<^verbatim>\<open>parseInt\<close> on the header, and on \<^verbatim>\<open>60\<close> when the
  header is missing or empty, so 60 then. From a header that is an optional sign and a
  run of digits, alone or followed by something that is not a digit, it is the number
  for the signed decimal value of the run; leading white space is skipped. The message
  is the body's when it is non-empty, and \<^verbatim>\<open>Rate limit exceeded\<close> otherwise.
\<close>

theorem rate_limit_error:
  "(resp_StatusCode resp = 429 \<longrightarrow>
      go_request c verb path (Responds resp)
        = Inl (Go_RateLimitError
             \<lparr>Code = (case resp_Unmarshal resp of Some e \<Rightarrow> Code e | None \<Rightarrow> ''UNKNOWN''),
              Message = (case resp_Unmarshal resp of Some e \<Rightarrow> Message e | None \<Rightarrow> resp_Body resp),
              StatusCode = 429\<rparr>
             (case map_of (resp_Header resp) ''Retry-After'' of
                None \<Rightarrow> 60
              | Some h \<Rightarrow> (case Sscanf_d h of Some i \<Rightarrow> i | None \<Rightarrow> 60))))
   \<and> ((\<forall>ch \<in> set h. \<not> is_digit ch) \<longrightarrow> Sscanf_d h = None)
   \<and> (ds \<noteq> [] \<and> (\<forall>ch \<in> set ds. is_digit ch) \<and> (rest = [] \<or> \<not> is_digit (hd rest)) \<longrightarrow>
        Sscanf_d (ds @ rest)
          = (if int (decimal ds) < 2 ^ 63 then Some (int (decimal ds)) else None)
        \<and> Sscanf_d (''+'' @ ds @ rest)
          = (if int (decimal ds) < 2 ^ 63 then Some (int (decimal ds)) else None)
        \<and> Sscanf_d (''-'' @ ds @ rest)
          = (if int (decimal ds) \<le> 2 ^ 63 then Some (- int (decimal ds)) else None)
        \<and> parseInt (ds @ rest) = Num (int (decimal ds))
        \<and> parseInt (''+'' @ ds @ rest) = Num (int (decimal ds))
        \<and> parseInt (''-'' @ ds @ rest) = Num (- int (decimal ds)))
   \<and> Sscanf_d (Itoa k) = (if - (2 ^ 63) \<le> k \<and> k < 2 ^ 63 then Some k else None)
   \<and> Sscanf_d (CHR '' '' # s) = Sscanf_d s
   \<and> Sscanf_d (CHR 0xC2 # CHR 0xA0 # s) = Sscanf_d s
   \<and> Sscanf_d (CHR 0x0A # s) = None
   \<and> (status response = 429 \<and> errorData response = Some d \<longrightarrow>
        ts_request this verb' path' (fetch_resolves response)
          = Inl (Thrown (RateLimitError (or_else (prop_message d) ''Rate limit exceeded'')
               (case headers_get (headers response) ''Retry-After'' of
                  None \<Rightarrow> Num 60
                | Some h' \<Rightarrow> if h' = '''' then Num 60 else parseInt h'))))
   \<and> parseInt (Itoa k) = Num k
   \<and> (white_space w \<longrightarrow> parseInt (w # s) = parseInt s)"
proof -
  let ?apiErr = "\<lparr>Code = (case resp_Unmarshal resp of Some e \<Rightarrow> Code e | None \<Rightarrow> ''UNKNOWN''),
             Message = (case resp_Unmarshal resp of Some e \<Rightarrow> Message e | None \<Rightarrow> resp_Body resp),
             StatusCode = resp_StatusCode resp\<rparr>"
  let ?ra = "Header_Get (resp_Header resp) ''Retry-After''"
  have empty: "Sscanf_d '''' = None"
    by (subst Sscanf_d_def, subst SkipSpace.simps) (simp add: signed_digits_def)
  have g: "go_request c verb path (Responds resp)
        = Inl (Go_RateLimitError
             \<lparr>Code = (case resp_Unmarshal resp of Some e \<Rightarrow> Code e | None \<Rightarrow> ''UNKNOWN''),
              Message = (case resp_Unmarshal resp of Some e \<Rightarrow> Message e | None \<Rightarrow> resp_Body resp),
              StatusCode = 429\<rparr>
             (case map_of (resp_Header resp) ''Retry-After'' of
                None \<Rightarrow> 60
              | Some h \<Rightarrow> (case Sscanf_d h of Some i \<Rightarrow> i | None \<Rightarrow> 60)))"
    if go: "resp_StatusCode resp = 429"
  proof -
    have "go_request c verb path (Responds resp) = Inl (go_classify resp ?apiErr)"
      using go by (simp add: go_request_Responds_error)
    then have "go_request c verb path (Responds resp)
        = Inl (Go_RateLimitError ?apiErr
            (if ?ra \<noteq> '''' then (case Sscanf_d ?ra of Some n \<Rightarrow> n | None \<Rightarrow> 60) else 60))"
      using go by (simp add: go_classify_def Let_def)
    then show ?thesis
      using go by (simp add: Header_Get_def empty split: option.splits)
  qed
  have nodigit: "(\<forall>ch \<in> set h. \<not> is_digit ch) \<longrightarrow> Sscanf_d h = None"
    using Sscanf_d_digit [of h] by (cases "Sscanf_d h") auto
  have runs: "ds \<noteq> [] \<and> (\<forall>ch \<in> set ds. is_digit ch) \<and> (rest = [] \<or> \<not> is_digit (hd rest)) \<longrightarrow>
        Sscanf_d (ds @ rest)
          = (if int (decimal ds) < 2 ^ 63 then Some (int (decimal ds)) else None)
        \<and> Sscanf_d (''+'' @ ds @ rest)
          = (if int (decimal ds) < 2 ^ 63 then Some (int (decimal ds)) else None)
        \<and> Sscanf_d (''-'' @ ds @ rest)
          = (if int (decimal ds) \<le> 2 ^ 63 then Some (- int (decimal ds)) else None)
        \<and> parseInt (ds @ rest) = Num (int (decimal ds))
        \<and> parseInt (''+'' @ ds @ rest) = Num (int (decimal ds))
        \<and> parseInt (''-'' @ ds @ rest) = Num (- int (decimal ds))"
    using Sscanf_d_run [of ds rest] parseInt_run [of ds rest] by blast
  have t: "ts_request this verb' path' (fetch_resolves response)
          = Inl (Thrown (RateLimitError (or_else (prop_message d) ''Rate limit exceeded'')
               (case headers_get (headers response) ''Retry-After'' of
                  None \<Rightarrow> Num 60
                | Some h' \<Rightarrow> if h' = '''' then Num 60 else parseInt h')))"
    if ts: "status response = 429" and d: "errorData response = Some d"
  proof -
    have "ts_request this verb' path' (fetch_resolves response)
        = Inl (Thrown (error_of_response path' response))"
      using ts by (simp add: ts_request_not_ok not_ok_400)
    then have t0: "ts_request this verb' path' (fetch_resolves response)
        = Inl (Thrown (RateLimitError
            (or_else (prop_message d) ''Rate limit exceeded'')
            (parseInt (or_else (headers_get (headers response) ''Retry-After'') ''60''))))"
      using ts by (simp add: error_of_response_def d Let_def)
    have sixty: "parseInt ''60'' = Num 60"
      by (simp add: parseInt_def white_space_def signed_digits_def decimal_def digit_value_def
          is_digit_def)
    show ?thesis
      by (simp add: t0 or_else_def sixty split: option.splits)
  qed
  have sp: "white_space w \<longrightarrow> parseInt (w # s) = parseInt s"
    by (simp add: parseInt_space)
  from g nodigit runs Sscanf_d_Itoa [of k] Sscanf_d_space [of s] t parseInt_Itoa [of k] sp
  show ?thesis
    by blast
qed

theorem rate_limit_error_witness:
  \<open>go_request \<lparr>apiKey = ''key'', baseURL = ''https://api.meshlogic.ai'', httpClient = \<lparr>Timeout = 30000000000\<rparr>\<rparr>
        ''GET'' ''/v1/events''
        (Responds \<lparr>resp_StatusCode = 429, resp_Header = [(''Retry-After'', ''120'')],
           resp_Body = ''{"code":"RATE","message":"slow down"}'',
           resp_Unmarshal = Some \<lparr>Code = ''RATE'', Message = ''slow down'', StatusCode = 0\<rparr>\<rparr>)
     = Inl (Go_RateLimitError \<lparr>Code = ''RATE'', Message = ''slow down'', StatusCode = 429\<rparr> 120)
   \<and> Sscanf_d ''Wed, 21 Oct 2015 07:28:00 GMT'' = None
   \<and> Sscanf_d ''05abc'' = Some 5
   \<and> Sscanf_d ''+05abc'' = Some 5
   \<and> Sscanf_d ''-05abc'' = Some (- 5)
   \<and> Sscanf_d [CHR 0xC2, CHR 0xA0, CHR ''5''] = Some 5
   \<and> parseInt ''05abc'' = Num 5
   \<and> parseInt [CHR 0xA0, CHR ''0'', CHR ''5'', CHR ''a'', CHR ''b'', CHR ''c''] = Num 5
   \<and> ts_request \<lparr>this_apiKey = ''key'', this_baseUrl = URL_text ''https://api.meshlogic.ai'', this_timeout = 30000\<rparr>
        ''GET'' ''/v1/events''
        (fetch_resolves \<lparr>status = 429, headers = [(''Retry-After'', ''120'')], json = Inl \<lparr>exn_instanceof_Error = True,
           exn_name = ''SyntaxError'', exn_String = ''SyntaxError: Unexpected end of JSON input''\<rparr>\<rparr>)
     = Inl (Thrown (RateLimitError ''Rate limit exceeded'' (Num 120)))\<close>
proof -
  let ?resp = \<open>\<lparr>resp_StatusCode = 429, resp_Header = [(''Retry-After'', ''120'')],
         resp_Body = ''{"code":"RATE","message":"slow down"}'',
         resp_Unmarshal = Some \<lparr>Code = ''RATE'', Message = ''slow down'', StatusCode = 0\<rparr>\<rparr>\<close>
  let ?exn = "\<lparr>exn_instanceof_Error = True, exn_name = ''SyntaxError'',
         exn_String = ''SyntaxError: Unexpected end of JSON input''\<rparr>"
  let ?response = "\<lparr>status = 429, headers = [(''Retry-After'', ''120'')], json = Inl ?exn\<rparr>"
  let ?d = "\<lparr>json_source = ''{}'', prop_message = None, prop_code = None\<rparr>"
  let ?c = "\<lparr>apiKey = ''key'', baseURL = ''https://api.meshlogic.ai'', httpClient = \<lparr>Timeout = 30000000000\<rparr>\<rparr>"
  let ?cl = "\<lparr>this_apiKey = ''key'', this_baseUrl = URL_text ''https://api.meshlogic.ai'', this_timeout = 30000\<rparr>"
  have h1: "resp_StatusCode ?resp = 429" by simp
  have h2: "status ?response = 429 \<and> errorData ?response = Some ?d"
    by (simp add: errorData_def)
  have h3: "\<forall>ch \<in> set ''Wed, GMT''. \<not> is_digit ch"
    by (simp add: is_digit_def)
  have h4: "''05'' \<noteq> '''' \<and> (\<forall>ch \<in> set ''05''. is_digit ch) \<and> (''abc'' = [] \<or> \<not> is_digit (hd ''abc''))"
    by (simp add: is_digit_def)
  have h5: "white_space (CHR 0xA0)"
    by (simp add: white_space_def)
  note t = rate_limit_error [where resp = ?resp and response = ?response and d = ?d and c = ?c
      and verb = "''GET''" and path = "''/v1/events''" and this = ?cl and verb' = "''GET''"
      and path' = "''/v1/events''" and k = 120 and h = "''Wed, GMT''"
      and ds = "''05''" and rest = "''abc''" and s = "''05abc''" and w = "CHR 0xA0"]
  from t h1 have k1: "go_request ?c ''GET'' ''/v1/events'' (Responds ?resp)
        = Inl (Go_RateLimitError
             \<lparr>Code = (case resp_Unmarshal ?resp of Some e \<Rightarrow> Code e | None \<Rightarrow> ''UNKNOWN''),
              Message = (case resp_Unmarshal ?resp of Some e \<Rightarrow> Message e | None \<Rightarrow> resp_Body ?resp),
              StatusCode = 429\<rparr>
             (case map_of (resp_Header ?resp) ''Retry-After'' of
                None \<Rightarrow> 60
              | Some h \<Rightarrow> (case Sscanf_d h of Some i \<Rightarrow> i | None \<Rightarrow> 60)))"
    by blast
  from t h3 have k2: "Sscanf_d ''Wed, GMT'' = None"
    by blast
  from t h4 have k3: "Sscanf_d (''05'' @ ''abc'')
          = (if int (decimal ''05'') < 2 ^ 63 then Some (int (decimal ''05'')) else None)
        \<and> Sscanf_d (''+'' @ ''05'' @ ''abc'')
          = (if int (decimal ''05'') < 2 ^ 63 then Some (int (decimal ''05'')) else None)
        \<and> Sscanf_d (''-'' @ ''05'' @ ''abc'')
          = (if int (decimal ''05'') \<le> 2 ^ 63 then Some (- int (decimal ''05'')) else None)
        \<and> parseInt (''05'' @ ''abc'') = Num (int (decimal ''05''))"
    by blast
  from t have k4: "Sscanf_d (Itoa 120) = (if - (2 ^ 63) \<le> (120 :: int) \<and> (120 :: int) < 2 ^ 63 then Some 120 else None)"
    by blast
  from t have k5: "Sscanf_d (CHR 0xC2 # CHR 0xA0 # ''05abc'') = Sscanf_d ''05abc''"
    by blast
  from t h5 have k6: "parseInt (CHR 0xA0 # ''05abc'') = parseInt ''05abc''"
    by blast
  from t h2 have k7: "ts_request ?cl ''GET'' ''/v1/events'' (fetch_resolves ?response)
          = Inl (Thrown (RateLimitError (or_else (prop_message ?d) ''Rate limit exceeded'')
               (case headers_get (headers ?response) ''Retry-After'' of
                  None \<Rightarrow> Num 60
                | Some h' \<Rightarrow> if h' = '''' then Num 60 else parseInt h')))"
    by blast
  from t have k8: "parseInt (Itoa 120) = Num 120"
    by blast
  have i: "Itoa 120 = ''120''"
    by (simp add: Itoa_def digits.simps)
  have v: "decimal ''05'' = 5"
    by (simp add: decimal_def digit_value_def)
  have date: "Sscanf_d ''Wed, 21 Oct 2015 07:28:00 GMT'' = None"
    by (subst Sscanf_d_def, subst SkipSpace.simps)
      (simp add: space_width_0 signed_digits_def is_digit_def)
  have nb: "Sscanf_d [CHR 0xC2, CHR 0xA0, CHR ''5''] = Some 5"
    using Sscanf_d_space(2) [of "''5''"]
    by (simp add: Sscanf_d_def SkipSpace_plain is_digit_def signed_digits_def decimal_def digit_value_def)
  from k4 i have s120: "Sscanf_d ''120'' = Some 120"
    by simp
  from k8 i have p120: "parseInt ''120'' = Num 120"
    by simp
  from k1 s120 have g: "go_request ?c ''GET'' ''/v1/events'' (Responds ?resp)
     = Inl (Go_RateLimitError \<lparr>Code = ''RATE'', Message = ''slow down'', StatusCode = 429\<rparr> 120)"
    by simp
  from k7 p120 have e: "ts_request ?cl ''GET'' ''/v1/events'' (fetch_resolves ?response)
     = Inl (Thrown (RateLimitError ''Rate limit exceeded'' (Num 120)))"
    by (simp add: headers_get_def or_else_def)
  from k3 v have r: "Sscanf_d ''05abc'' = Some 5 \<and> Sscanf_d ''+05abc'' = Some 5
      \<and> Sscanf_d ''-05abc'' = Some (- 5) \<and> parseInt ''05abc'' = Num 5"
    by simp
  from k6 r have r2: "parseInt [CHR 0xA0, CHR ''0'', CHR ''5'', CHR ''a'', CHR ''b'', CHR ''c''] = Num 5"
    by simp
  from g date r nb r2 e show ?thesis
    by simp
qed

text \<open>
  C2 as stated fails in Go: a 429 response whose body \<^verbatim>\<open>{}\<close> supplies no message
  yields the empty message, not \<^verbatim>\<open>Rate limit exceeded\<close>.
\<close>

theorem rate_limit_error_counterexample:
  \<open>go_request \<lparr>apiKey = ''key'', baseURL = ''https://api.meshlogic.ai'', httpClient = \<lparr>Timeout = 30000000000\<rparr>\<rparr>
        ''GET'' ''/v1/events''
        (Responds \<lparr>resp_StatusCode = 429, resp_Header = [], resp_Body = ''{}'',
           resp_Unmarshal = Some \<lparr>Code = '''', Message = '''', StatusCode = 0\<rparr>\<rparr>)
     = Inl (Go_RateLimitError \<lparr>Code = '''', Message = '''', StatusCode = 429\<rparr> 60)
   \<and> go_message (Go_RateLimitError \<lparr>Code = '''', Message = '''', StatusCode = 429\<rparr> 60)
       \<noteq> Some ''Rate limit exceeded''\<close>
  by (simp add: go_request_def go_classify_def Header_Get_def go_message_def Let_def)

text \<open>
  The TypeScript variant on a \<^verbatim>\<open>Retry-After\<close> header without an integer,
  such as one in the HTTP date form: \<^verbatim>\<open>parseInt\<close> finds no digit and the retry
  delay is \<^verbatim>\<open>NaN\<close>, where the Go variant keeps 60.
\<close>

lemma ts_retry_after_of_a_date:
  "ts_request this verb path
     (fetch_resolves \<lparr>status = 429, headers = [(''Retry-After'', ''Wed, 21 Oct 2015 07:28:00 GMT'')],
        json = Inr (Some \<lparr>json_source = ''{}'', prop_message = None, prop_code = None\<rparr>)\<rparr>)
   = Inl (Thrown (RateLimitError ''Rate limit exceeded'' NaN))"
  by (simp add: ts_request_def ok_def error_of_response_def errorData_def or_else_def headers_get_def
      parseInt_def white_space_def signed_digits_def is_digit_def Let_def)

subsection \<open>Calls that end without a response\<close>




subsection \<open>Fallback messages\<close>

text \<open>
  C7, as the code has it. TypeScript: a 401 response whose body does not parse yields
  the message \<^verbatim>\<open>Invalid or expired API key\<close>, and a 404 response whose body does
  not parse, to a request at path \<open>p\<close>, yields \<^verbatim>\<open>Resource not found: \<close>
  followed by \<open>p\<close>. Go has no fallback text: for a 401 or 404 response whose body
  does not decode, the message is the raw body (the empty string for an empty body).
\<close>

theorem fallback_messages:
  "(status response = 401 \<and> json response = Inl e \<longrightarrow>
      map_option ts_message (ts_failure (ts_request this verb path (fetch_resolves response)))
        = Some ''Invalid or expired API key'')
   \<and> (status response = 404 \<and> json response = Inl e \<longrightarrow>
      map_option ts_message (ts_failure (ts_request this verb path (fetch_resolves response)))
        = Some (''Resource not found: '' @ path))
   \<and> ((resp_StatusCode resp = 401 \<or> resp_StatusCode resp = 404) \<and> resp_Unmarshal resp = None \<longrightarrow>
      (case go_failure (go_request c verb' path' (Responds resp)) of
         None \<Rightarrow> False
       | Some err \<Rightarrow> go_message err = Some (resp_Body resp)))"
proof -
  have t: "status response = 401 \<or> status response = 404 \<Longrightarrow>
      ts_request this verb path (fetch_resolves response)
        = Inl (Thrown (error_of_response path response))"
    by (rule ts_request_not_ok) (auto simp: ok_def)
  have g: "resp_StatusCode resp = 401 \<or> resp_StatusCode resp = 404 \<Longrightarrow> resp_StatusCode resp \<ge> 400"
    by auto
  show ?thesis
    using go_request_Responds_error [OF g, of c verb' path']
    by (auto simp: t ts_failure_def error_of_response_def errorData_def or_else_def Let_def
        go_failure_def go_message_def go_base_classify)
qed

theorem fallback_messages_witness:
  "status \<lparr>status = 404, headers = [], json = Inl \<lparr>exn_instanceof_Error = True,
       exn_name = ''SyntaxError'', exn_String = ''SyntaxError: Unexpected end of JSON input''\<rparr>\<rparr> = 404
   \<and> ts_request \<lparr>this_apiKey = ''key'', this_baseUrl = URL_text ''https://api.meshlogic.ai'', this_timeout = 30000\<rparr>
        ''GET'' ''/v1/devices/xyz''
        (fetch_resolves \<lparr>status = 404, headers = [], json = Inl \<lparr>exn_instanceof_Error = True,
           exn_name = ''SyntaxError'', exn_String = ''SyntaxError: Unexpected end of JSON input''\<rparr>\<rparr>)
     = Inl (Thrown (NotFoundError ''Resource not found: /v1/devices/xyz''))
   \<and> ts_request \<lparr>this_apiKey = ''key'', this_baseUrl = URL_text ''https://api.meshlogic.ai'', this_timeout = 30000\<rparr>
        ''GET'' ''/v1/devices/xyz''
        (fetch_resolves \<lparr>status = 401, headers = [], json = Inl \<lparr>exn_instanceof_Error = True,
           exn_name = ''SyntaxError'', exn_String = ''SyntaxError: Unexpected end of JSON input''\<rparr>\<rparr>)
     = Inl (Thrown (AuthenticationError ''Invalid or expired API key''))
   \<and> resp_Unmarshal \<lparr>resp_StatusCode = 404, resp_Header = [], resp_Body = ''Not Found'',
         resp_Unmarshal = None\<rparr> = None
   \<and> go_request \<lparr>apiKey = ''key'', baseURL = ''https://api.meshlogic.ai'', httpClient = \<lparr>Timeout = 30000000000\<rparr>\<rparr>
        ''GET'' ''/v1/devices/xyz''
        (Responds \<lparr>resp_StatusCode = 404, resp_Header = [], resp_Body = ''Not Found'', resp_Unmarshal = None\<rparr>)
     = Inl (Go_NotFoundError \<lparr>Code = ''UNKNOWN'', Message = ''Not Found'', StatusCode = 404\<rparr>)"
proof -
  let ?exn = "\<lparr>exn_instanceof_Error = True, exn_name = ''SyntaxError'',
      exn_String = ''SyntaxError: Unexpected end of JSON input''\<rparr>"
  let ?r404 = "\<lparr>status = 404, headers = [], json = Inl ?exn\<rparr>"
  let ?r401 = "\<lparr>status = 401, headers = [], json = Inl ?exn\<rparr>"
  let ?resp = "\<lparr>resp_StatusCode = 404, resp_Header = [], resp_Body = ''Not Found'', resp_Unmarshal = None\<rparr>"
  let ?c = "\<lparr>apiKey = ''key'', baseURL = ''https://api.meshlogic.ai'', httpClient = \<lparr>Timeout = 30000000000\<rparr>\<rparr>"
  let ?cl = "\<lparr>this_apiKey = ''key'', this_baseUrl = URL_text ''https://api.meshlogic.ai'', this_timeout = 30000\<rparr>"
  have h1: "status ?r404 = 404 \<and> json ?r404 = Inl ?exn" by simp
  from fallback_messages [where response = ?r404 and e = ?exn and this = ?cl and verb = "''GET''"
      and path = "''/v1/devices/xyz''"] h1
  have m: "map_option ts_message (ts_failure (ts_request ?cl ''GET'' ''/v1/devices/xyz'' (fetch_resolves ?r404)))
        = Some (''Resource not found: '' @ ''/v1/devices/xyz'')"
    by blast
  have a: "ts_request ?cl ''GET'' ''/v1/devices/xyz'' (fetch_resolves ?r404)
     = Inl (Thrown (NotFoundError ''Resource not found: /v1/devices/xyz''))"
    by (simp add: ts_request_def ok_def error_of_response_def errorData_def or_else_def Let_def)
  have b: "ts_request ?cl ''GET'' ''/v1/devices/xyz'' (fetch_resolves ?r401)
     = Inl (Thrown (AuthenticationError ''Invalid or expired API key''))"
    by (simp add: ts_request_def ok_def error_of_response_def errorData_def or_else_def Let_def)
  have g: "go_request ?c ''GET'' ''/v1/devices/xyz'' (Responds ?resp)
     = Inl (Go_NotFoundError \<lparr>Code = ''UNKNOWN'', Message = ''Not Found'', StatusCode = 404\<rparr>)"
    by (simp add: go_request_def go_classify_def Let_def)
  from m a b g show ?thesis by simp
qed

text \<open>
  C7 as stated fails in Go: a 401 response with an empty body yields the empty message.
\<close>

theorem fallback_messages_counterexample:
  "go_request \<lparr>apiKey = ''key'', baseURL = ''https://api.meshlogic.ai'', httpClient = \<lparr>Timeout = 30000000000\<rparr>\<rparr>
        ''GET'' ''/v1/events''
        (Responds \<lparr>resp_StatusCode = 401, resp_Header = [], resp_Body = '''', resp_Unmarshal = None\<rparr>)
     = Inl (Go_AuthenticationError \<lparr>Code = ''UNKNOWN'', Message = '''', StatusCode = 401\<rparr>)
   \<and> go_message (Go_AuthenticationError \<lparr>Code = ''UNKNOWN'', Message = '''', StatusCode = 401\<rparr>)
       \<noteq> Some ''Invalid or expired API key''"
  by (simp add: go_request_def go_classify_def go_message_def Let_def)

subsection \<open>Success responses\<close>

text \<open>
  C8, as the code has it. Go: for every response with status below 400 the call
  returns the raw body, unclassified. TypeScript: for every response with a status from
  200 to 299 the call returns the body parsed as JSON, and when the body is not JSON
  the parser's exception reaches the caller as it is, not as an SDK error; a response
  with any other status, also one below 400, takes the error path.
\<close>

theorem success_path:
  "(resp_StatusCode resp < 400 \<longrightarrow>
      go_request c verb path (Responds resp) = Inr (resp_Body resp))
   \<and> (ok response \<longrightarrow>
      ts_request this verb' path' (fetch_resolves response)
        = (case json response of Inl e \<Rightarrow> Inl (Uncaught e) | Inr v \<Rightarrow> Inr v)
      \<and> ts_failure (ts_request this verb' path' (fetch_resolves response)) = None)
   \<and> (\<not> ok response \<longrightarrow>
      ts_failure (ts_request this verb' path' (fetch_resolves response))
        = Some (error_of_response path' response))"
  by (auto simp: go_request_def ts_request_def ts_failure_def split: sum.splits)

theorem success_path_witness:
  \<open>resp_StatusCode \<lparr>resp_StatusCode = 304, resp_Header = [], resp_Body = '''', resp_Unmarshal = None\<rparr> < 400
   \<and> go_request \<lparr>apiKey = ''key'', baseURL = ''https://api.meshlogic.ai'', httpClient = \<lparr>Timeout = 30000000000\<rparr>\<rparr>
        ''GET'' ''/v1/devices/status''
        (Responds \<lparr>resp_StatusCode = 304, resp_Header = [], resp_Body = '''', resp_Unmarshal = None\<rparr>)
     = Inr ''''
   \<and> ok \<lparr>status = 200, headers = [], json = Inl \<lparr>exn_instanceof_Error = True,
         exn_name = ''SyntaxError'', exn_String = ''SyntaxError: Unexpected token <''\<rparr>\<rparr>
   \<and> ts_request \<lparr>this_apiKey = ''key'', this_baseUrl = URL_text ''https://api.meshlogic.ai'', this_timeout = 30000\<rparr>
        ''GET'' ''/v1/devices/status''
        (fetch_resolves \<lparr>status = 200, headers = [], json = Inl \<lparr>exn_instanceof_Error = True,
           exn_name = ''SyntaxError'', exn_String = ''SyntaxError: Unexpected token <''\<rparr>\<rparr>)
     = Inl (Uncaught \<lparr>exn_instanceof_Error = True, exn_name = ''SyntaxError'',
              exn_String = ''SyntaxError: Unexpected token <''\<rparr>)
   \<and> \<not> ok \<lparr>status = 500, headers = [], json = Inl \<lparr>exn_instanceof_Error = True,
         exn_name = ''SyntaxError'', exn_String = ''SyntaxError: Unexpected token <''\<rparr>\<rparr>
   \<and> ts_request \<lparr>this_apiKey = ''key'', this_baseUrl = URL_text ''https://api.meshlogic.ai'', this_timeout = 30000\<rparr>
        ''GET'' ''/v1/devices/status''
        (fetch_resolves \<lparr>status = 200, headers = [],
           json = Inr (Some \<lparr>json_source = ''{"total":3,"online":2,"offline":1,"degraded":0}'',
                       prop_message = None, prop_code = None\<rparr>)\<rparr>)
     = Inr (Some \<lparr>json_source = ''{"total":3,"online":2,"offline":1,"degraded":0}'',
            prop_message = None, prop_code = None\<rparr>)\<close>
proof -
  let ?exn = "\<lparr>exn_instanceof_Error = True, exn_name = ''SyntaxError'',
      exn_String = ''SyntaxError: Unexpected token <''\<rparr>"
  let ?r200 = "\<lparr>status = 200, headers = [], json = Inl ?exn\<rparr>"
  let ?r500 = "\<lparr>status = 500, headers = [], json = Inl ?exn\<rparr>"
  let ?resp = "\<lparr>resp_StatusCode = 304, resp_Header = [], resp_Body = '''', resp_Unmarshal = None\<rparr>"
  let ?c = "\<lparr>apiKey = ''key'', baseURL = ''https://api.meshlogic.ai'', httpClient = \<lparr>Timeout = 30000000000\<rparr>\<rparr>"
  let ?cl = "\<lparr>this_apiKey = ''key'', this_baseUrl = URL_text ''https://api.meshlogic.ai'', this_timeout = 30000\<rparr>"
  have h1: "resp_StatusCode ?resp < 400" by simp
  have h2: "ok ?r200" by (simp add: ok_def)
  have h3: "\<not> ok ?r500" by (simp add: ok_def)
  from success_path [where resp = ?resp and c = ?c and verb = "''GET''" and path = "''/v1/devices/status''"
      and response = ?r200 and this = ?cl and verb' = "''GET''" and path' = "''/v1/devices/status''"] h1 h2
  have g: "go_request ?c ''GET'' ''/v1/devices/status'' (Responds ?resp) = Inr (resp_Body ?resp)"
    and t: "ts_request ?cl ''GET'' ''/v1/devices/status'' (fetch_resolves ?r200)
        = (case json ?r200 of Inl e \<Rightarrow> Inl (Uncaught e) | Inr v \<Rightarrow> Inr v)"
    by blast+
  have v: \<open>ts_request ?cl ''GET'' ''/v1/devices/status''
        (fetch_resolves \<lparr>status = 200, headers = [],
           json = Inr (Some \<lparr>json_source = ''{"total":3,"online":2,"offline":1,"degraded":0}'',
                       prop_message = None, prop_code = None\<rparr>)\<rparr>)
     = Inr (Some \<lparr>json_source = ''{"total":3,"online":2,"offline":1,"degraded":0}'',
            prop_message = None, prop_code = None\<rparr>)\<close>
    by (simp add: ts_request_def ok_def)
  from h1 h2 h3 g t v show ?thesis by simp
qed

text \<open>
  C8 as stated fails in TypeScript: a 304 response is below 400 and is classified as a
  generic SDK error.
\<close>

theorem success_path_counterexample:
  "status \<lparr>status = 304, headers = [], json = Inl \<lparr>exn_instanceof_Error = True,
       exn_name = ''SyntaxError'', exn_String = ''SyntaxError: Unexpected end of JSON input''\<rparr>\<rparr> < 400
   \<and> ts_request \<lparr>this_apiKey = ''key'', this_baseUrl = URL_text ''https://api.meshlogic.ai'', this_timeout = 30000\<rparr>
        ''GET'' ''/v1/devices/status''
        (fetch_resolves \<lparr>status = 304, headers = [], json = Inl \<lparr>exn_instanceof_Error = True,
           exn_name = ''SyntaxError'', exn_String = ''SyntaxError: Unexpected end of JSON input''\<rparr>\<rparr>)
     = Inl (Thrown (MeshLogicError ''Unknown error'' (Some ''UNKNOWN'') (Some 304)))"
  by (simp add: ts_request_def ok_def error_of_response_def errorData_def or_else_def Let_def)

subsection \<open>Query parameters of a request\<close>

lemma values_of_simps:
  "values_of name [] = []"
  "values_of name ((k, w) # q) = (if k = name then w # values_of name q else values_of name q)"
  "values_of name (q @ q') = values_of name q @ values_of name q'"
  by (simp_all add: values_of_def)

lemma values_of_keys: "(k \<in> fst ` set q) = (values_of k q \<noteq> [])"
  by (force simp: values_of_def filter_empty_conv)

lemma values_of_filter_other: "values_of name (filter (\<lambda>p. fst p \<noteq> name) q) = []"
  by (induction q) (auto simp: values_of_simps)

lemma values_of_filter_same:
  "k \<noteq> name \<Longrightarrow> values_of k (filter (\<lambda>p. fst p \<noteq> name) q) = values_of k q"
  by (induction q) (auto simp: values_of_simps)

lemma values_of_set:
  "values_of k (searchParams_set q name v) = (if k = name then [v] else values_of k q)"
  by (induction q name v rule: searchParams_set.induct)
     (auto simp: values_of_simps values_of_filter_other values_of_filter_same)

lemma ts_query_Cons_None: "ts_query S q0 (Some ((key, None) # entries)) = ts_query S q0 (Some entries)"
  by (simp add: ts_query_def)

lemma ts_query_Cons_Some:
  "ts_query S q0 (Some ((key, Some v) # entries))
     = ts_query S (searchParams_set q0 key (js_String S v)) (Some entries)"
  by (simp add: ts_query_def)

lemma ts_query_Nil: "ts_query S q0 (Some []) = q0"
  by (simp add: ts_query_def)

lemma map_of_rev_Cons:
  "map_of (rev ((key, x) # d)) k
     = (case map_of (rev d) k of Some y \<Rightarrow> Some y | None \<Rightarrow> if k = key then Some x else None)"
  by (simp add: map_add_def split: option.splits)

lemma values_of_ts_query:
  "values_of k (ts_query S q0 (Some entries))
     = (case map_of (rev (ts_defined S entries)) k of Some v \<Rightarrow> [v] | None \<Rightarrow> values_of k q0)"
proof (induction S entries arbitrary: q0 rule: ts_defined.induct)
  case (1 S)
  then show ?case by (simp add: ts_query_Nil)
next
  case (2 S key entries)
  then show ?case by (simp add: ts_query_Cons_None)
next
  case (3 S key v entries)
  have "values_of k (ts_query S q0 (Some ((key, Some v) # entries)))
      = (case map_of (rev (ts_defined S entries)) k of
           Some y \<Rightarrow> [y]
         | None \<Rightarrow> values_of k (searchParams_set q0 key (js_String S v)))"
    by (simp only: ts_query_Cons_Some 3)
  also have "\<dots> = (case map_of (rev ((key, js_String S v) # ts_defined S entries)) k of
           Some y \<Rightarrow> [y]
         | None \<Rightarrow> values_of k q0)"
    by (simp only: map_of_rev_Cons values_of_set) (simp split: option.splits)
  finally show ?case by simp
qed

lemma ts_defined_keys: "(k \<in> fst ` set (ts_defined S entries)) = (\<exists>v. (k, Some v) \<in> set entries)"
  by (induction S entries rule: ts_defined.induct) auto

lemma searchParams_set_fresh: "name \<notin> fst ` set q \<Longrightarrow> searchParams_set q name v = q @ [(name, v)]"
  by (induction q name v rule: searchParams_set.induct) auto

lemma ts_query_fresh:
  "distinct (map fst entries) \<Longrightarrow> fst ` set q0 \<inter> fst ` set entries = {} \<Longrightarrow>
   ts_query S q0 (Some entries) = q0 @ ts_defined S entries"
proof (induction S entries arbitrary: q0 rule: ts_defined.induct)
  case (1 S)
  then show ?case by (simp add: ts_query_Nil)
next
  case (2 S key entries)
  then show ?case by (simp add: ts_query_Cons_None)
next
  case (3 S key v entries)
  from 3(3) have fresh: "key \<notin> fst ` set q0" by auto
  have "distinct (map fst entries)" using 3(2) by simp
  moreover have "fst ` set (q0 @ [(key, js_String S v)]) \<inter> fst ` set entries = {}"
    using 3(2,3) by auto
  ultimately have "ts_query S (q0 @ [(key, js_String S v)]) (Some entries)
      = (q0 @ [(key, js_String S v)]) @ ts_defined S entries"
    by (rule 3(1))
  then show ?case
    by (simp add: ts_query_Cons_Some searchParams_set_fresh [OF fresh])
qed

lemma concat_map_select:
  "distinct ks \<Longrightarrow>
   concat (map (\<lambda>k'. if k' = k then f k' else []) ks) = (if k \<in> set ks then f k else [])"
  by (induction ks) auto

lemma values_of_pairs: "values_of k (map (\<lambda>x. (k', x)) xs) = (if k' = k then xs else [])"
  by (induction xs) (auto simp: values_of_simps)

lemma values_of_concat: "values_of k (concat qs) = concat (map (values_of k) qs)"
  by (induction qs) (auto simp: values_of_simps)

lemma values_of_Encode:
  "values_of k (Encode v) = (case map_of v k of Some xs \<Rightarrow> xs | None \<Rightarrow> [])"
proof -
  let ?ks = "sort (remdups (map fst v))"
  have d: "distinct ?ks" by simp
  have s: "set ?ks = fst ` set v" by simp
  have "values_of k (Encode v)
      = concat (map (\<lambda>k'. if k' = k then the (map_of v k') else []) ?ks)"
    by (simp add: Encode_def values_of_concat comp_def values_of_pairs)
  also have "\<dots> = (if k \<in> set ?ks then the (map_of v k) else [])"
    using d by (rule concat_map_select)
  also have "\<dots> = (case map_of v k of Some xs \<Rightarrow> xs | None \<Rightarrow> [])"
  proof (cases "map_of v k")
    case None
    then have "k \<notin> fst ` set v" by (simp add: map_of_eq_None_iff)
    with None show ?thesis by (simp add: s)
  next
    case (Some xs)
    then have "k \<in> fst ` set v" by (force dest: map_of_SomeD)
    with Some show ?thesis by (simp add: s)
  qed
  finally show ?thesis .
qed

lemma Values_built_foldl:
  "foldl (\<lambda>v (key, x). Values_Set v key x) v0 sets = map (\<lambda>(key, x). (key, [x])) (rev sets) @ v0"
  by (induction sets arbitrary: v0) (auto simp: Values_Set_def)

lemma map_of_Values_built:
  "map_of (Values_built sets) k = map_option (\<lambda>x. [x]) (map_of (rev sets) k)"
  by (simp add: Values_built_def Values_built_foldl map_of_map)

lemma values_of_Values_built:
  "values_of k (Encode (Values_built sets))
     = (case map_of (rev sets) k of Some x \<Rightarrow> [x] | None \<Rightarrow> [])"
  by (simp add: values_of_Encode map_of_Values_built split: option.splits)

lemma map_of_rev_keys: "(map_of (rev xs) k \<noteq> None) = (k \<in> fst ` set xs)"
  by (simp add: map_of_eq_None_iff)

text \<open>
  C6. The mapping passed to \<^verbatim>\<open>request\<close> is, in TypeScript, the parameter object,
  whose entries hold a value or \<^verbatim>\<open>undefined\<close>; in Go it is the
  \<^verbatim>\<open>url.Values\<close> that a resource method has filled with \<^verbatim>\<open>Set\<close>, calling
  it for the parameters that are present. The resource methods pass paths without a
  query of their own.

  TypeScript: the names in the built query are exactly the names that have a defined
  value in the mapping. Each occurs once, with the stringified value of its last defined
  entry. A name whose value is \<^verbatim>\<open>undefined\<close> is not written: it does not occur, so
  it is never serialized as an empty string. With distinct names the query is the list of
  the defined entries, stringified, in entry order. For a path that carries a query of
  its own, \<open>pq\<close>, a name takes the mapping's defined value, and keeps what the path
  held for it when the mapping has none. Without a mapping the path's query stays.

  Go: the names in the built query are exactly the names that were set. Each occurs
  once, with the value set last. A query that the path carries is replaced. For any
  \<^verbatim>\<open>url.Values\<close> the query holds for a name the values the mapping holds for it.
  With a nil mapping the path's query stays.
\<close>

theorem query_parameters:
  "(k \<in> fst ` set (ts_query S [] (Some entries))) = (\<exists>v. (k, Some v) \<in> set entries)
   \<and> values_of k (ts_query S [] (Some entries))
       = (case map_of (rev (ts_defined S entries)) k of Some v \<Rightarrow> [v] | None \<Rightarrow> [])
   \<and> (distinct (map fst entries) \<longrightarrow> ts_query S [] (Some entries) = ts_defined S entries)
   \<and> values_of k (ts_query S pq (Some entries))
       = (case map_of (rev (ts_defined S entries)) k of Some v \<Rightarrow> [v] | None \<Rightarrow> values_of k pq)
   \<and> ts_query S pq None = pq
   \<and> (k \<in> fst ` set (go_RawQuery pq (Some (Values_built sets)))) = (k \<in> fst ` set sets)
   \<and> values_of k (go_RawQuery pq (Some (Values_built sets)))
       = (case map_of (rev sets) k of Some x \<Rightarrow> [x] | None \<Rightarrow> [])
   \<and> values_of k (go_RawQuery pq (Some vals)) = (case map_of vals k of Some xs \<Rightarrow> xs | None \<Rightarrow> [])
   \<and> go_RawQuery pq None = pq"
proof -
  have v: "values_of k (ts_query S [] (Some entries))
       = (case map_of (rev (ts_defined S entries)) k of Some v \<Rightarrow> [v] | None \<Rightarrow> [])"
    by (simp add: values_of_ts_query values_of_simps cong: option.case_cong)
  have "(k \<in> fst ` set (ts_query S [] (Some entries))) = (map_of (rev (ts_defined S entries)) k \<noteq> None)"
    by (simp only: values_of_keys v) (simp split: option.splits)
  then have n: "(k \<in> fst ` set (ts_query S [] (Some entries))) = (\<exists>v. (k, Some v) \<in> set entries)"
    by (simp only: map_of_rev_keys ts_defined_keys)
  have a: "distinct (map fst entries) \<longrightarrow> ts_query S [] (Some entries) = ts_defined S entries"
    using ts_query_fresh [of entries "[]" S] by simp
  have b: "ts_query S pq None = pq" "go_RawQuery pq None = pq"
    by (simp_all add: ts_query_def go_RawQuery_def)
  have c: "go_RawQuery pq (Some vals) = Encode vals" for vals
    by (simp add: go_RawQuery_def)
  have gv: "values_of k (go_RawQuery pq (Some (Values_built sets)))
       = (case map_of (rev sets) k of Some x \<Rightarrow> [x] | None \<Rightarrow> [])"
    by (simp only: c values_of_Values_built)
  have "(k \<in> fst ` set (go_RawQuery pq (Some (Values_built sets)))) = (map_of (rev sets) k \<noteq> None)"
    by (simp only: values_of_keys gv) (simp split: option.splits)
  then have gn: "(k \<in> fst ` set (go_RawQuery pq (Some (Values_built sets)))) = (k \<in> fst ` set sets)"
    by (simp only: map_of_rev_keys)
  have ge: "values_of k (go_RawQuery pq (Some vals)) = (case map_of vals k of Some xs \<Rightarrow> xs | None \<Rightarrow> [])"
    by (simp only: c values_of_Encode)
  from n v a values_of_ts_query [of k S pq entries] b gn gv ge show ?thesis
    by blast
qed

theorem query_parameters_witness:
  "distinct (map fst [(''limit'', None), (''status'', Some (Str ''online'')), (''offset'', Some (Number (Num 0)))])
   \<and> ts_query String_example []
         (Some [(''limit'', None), (''status'', Some (Str ''online'')), (''offset'', Some (Number (Num 0)))])
       = [(''status'', ''online''), (''offset'', ''0'')]
   \<and> ''limit'' \<notin> fst ` set (ts_query String_example []
         (Some [(''limit'', None), (''status'', Some (Str ''online'')), (''offset'', Some (Number (Num 0)))]))
   \<and> go_RawQuery [] (Some (Values_built [(''status'', ''online''), (''limit'', ''50''), (''limit'', ''100'')]))
       = [(''limit'', ''100''), (''status'', ''online'')]"
proof -
  let ?entries = "[(''limit'', None), (''status'', Some (Str ''online'')), (''offset'', Some (Number (Num 0)))]"
  have h: "distinct (map fst ?entries)" by simp
  from query_parameters [where entries = ?entries and k = "''limit''" and pq = "[]" and S = String_example] h
  have a: "ts_query String_example [] (Some ?entries) = ts_defined String_example ?entries"
    and b: "(''limit'' \<in> fst ` set (ts_query String_example [] (Some ?entries)))
              = (\<exists>v. (''limit'', Some v) \<in> set ?entries)"
    by blast+
  have d: "ts_defined String_example ?entries = [(''status'', ''online''), (''offset'', ''0'')]"
    by (simp add: js_String_number_def Itoa_def digits.simps)
  have g: "go_RawQuery [] (Some (Values_built [(''status'', ''online''), (''limit'', ''50''), (''limit'', ''100'')]))
       = [(''limit'', ''100''), (''status'', ''online'')]"
    by (simp add: go_RawQuery_def Encode_def Values_built_def Values_Set_def)
  from b have b': "''limit'' \<notin> fst ` set (ts_query String_example [] (Some ?entries))"
    by simp
  from h a b' d g show ?thesis by simp
qed

end
